theory Spec2Isabelle
  imports Complex_Main "HOL-Library.Log_Nat"
begin

chapter \<open>The virtual room: scene construction, frame updater and resize handler\<close>

text \<open>
  \<^verbatim>\<open>src/main.js\<close> holds two versions of the program. Lines 1 to 76 are a smaller
  one: two lights, a floor, one wall and a cube, no time accumulator, and the same resize
  handler. Lines 77 to 350 are the version with the room, the pedestal, the accent sphere
  and the animated frame updater; it is the one modelled here, and line numbers refer to it.
\<close>

section \<open>JavaScript Numbers\<close>

text \<open>
  Every numeric value of \<^verbatim>\<open>src/main.js\<close> is an ECMAScript Number: an IEEE 754 binary64
  value. The language fixes \<^verbatim>\<open>+\<close>, \<^verbatim>\<open>*\<close> and \<^verbatim>\<open>/\<close> as the exact real result rounded to the
  nearest representable value, ties to even. A finite Number is modelled by the real it
  denotes; the two zeros are identified (the program never divides by a negative zero).
  \<open>rnd\<close> rounds a real to the binary64 grid with an unbounded exponent range above, and
  \<open>rd\<close> turns a result of magnitude \<open>2^1024\<close> or more into an infinity.
\<close>

datatype number = NaN | PosInf | NegInf | Fin real

definition round_even :: "real \<Rightarrow> int" where
  "round_even q =
     (let f = \<lfloor>q\<rfloor>; d = q - of_int f
      in if d < 1/2 then f else if 1/2 < d then f + 1 else if even f then f else f + 1)"

text \<open>The binary exponent \<open>e\<close> of a non-zero real: \<open>2^e \<le> |x| < 2^(e+1)\<close>.\<close>

definition expo :: "real \<Rightarrow> int" where
  "expo x = (let a = \<bar>x\<bar> in if 1 \<le> a then bitlen \<lfloor>a\<rfloor> - 1 else - bitlen (\<lceil>1 / a\<rceil> - 1))"

text \<open>Spacing of the binary64 grid around \<open>x\<close>: 53 significant bits, subnormal below \<open>2^-1022\<close>.\<close>

definition ulp :: "real \<Rightarrow> real" where
  "ulp x = 2 powi (max (expo x) (- 1022) - 52)"

definition rnd :: "real \<Rightarrow> real" where
  "rnd x = of_int (round_even (x / ulp x)) * ulp x"

definition rd :: "real \<Rightarrow> number" where
  "rd x = (let r = rnd x
           in if 2 ^ 1024 \<le> r then PosInf else if r \<le> - (2 ^ 1024) then NegInf else Fin r)"

text \<open>A decimal literal of the source denotes the Number nearest to its mathematical value.\<close>

definition lit :: "real \<Rightarrow> number" where
  "lit x = rd x"

fun num_neg :: "number \<Rightarrow> number" where
  "num_neg NaN = NaN"
| "num_neg PosInf = NegInf"
| "num_neg NegInf = PosInf"
| "num_neg (Fin x) = Fin (- x)"

fun num_add :: "number \<Rightarrow> number \<Rightarrow> number" where
  "num_add NaN _ = NaN"
| "num_add _ NaN = NaN"
| "num_add (Fin x) (Fin y) = rd (x + y)"
| "num_add (Fin x) i = i"
| "num_add i (Fin y) = i"
| "num_add i j = (if i = j then i else NaN)"

fun num_mul :: "number \<Rightarrow> number \<Rightarrow> number" where
  "num_mul NaN _ = NaN"
| "num_mul _ NaN = NaN"
| "num_mul (Fin x) (Fin y) = rd (x * y)"
| "num_mul (Fin x) i = (if x = 0 then NaN else if 0 < x then i else num_neg i)"
| "num_mul i (Fin y) = (if y = 0 then NaN else if 0 < y then i else num_neg i)"
| "num_mul i j = (if i = j then PosInf else NegInf)"

fun num_div :: "number \<Rightarrow> number \<Rightarrow> number" where
  "num_div NaN _ = NaN"
| "num_div _ NaN = NaN"
| "num_div (Fin x) (Fin y) =
     (if y = 0 then (if x = 0 then NaN else if 0 < x then PosInf else NegInf) else rd (x / y))"
| "num_div (Fin x) i = Fin 0"
| "num_div i (Fin y) = (if 0 \<le> y then i else num_neg i)"
| "num_div i j = NaN"

text \<open>\<^verbatim>\<open>Math.min\<close> of two Numbers: NaN if either is NaN.\<close>

fun Math_min :: "number \<Rightarrow> number \<Rightarrow> number" where
  "Math_min NaN _ = NaN"
| "Math_min _ NaN = NaN"
| "Math_min NegInf _ = NegInf"
| "Math_min _ NegInf = NegInf"
| "Math_min PosInf b = b"
| "Math_min a PosInf = a"
| "Math_min (Fin x) (Fin y) = Fin (min x y)"

text \<open>\<^verbatim>\<open>Math.PI\<close>: the Number nearest to \<open>\<pi>\<close>, bit pattern 0x400921FB54442D18.\<close>

definition Math_PI :: number where
  "Math_PI = Fin (884279719003555 / 281474976710656)"

section \<open>Scene objects\<close>

text \<open>
  The objects come from the external graphics library; only the attributes that
  \<^verbatim>\<open>main.js\<close> passes to a constructor or assigns are modelled. A new object has position
  and rotation \<open>(0, 0, 0)\<close> and casts and receives no shadow, as the library documents.
  A constructor parameter the source leaves out is \<open>None\<close>.
\<close>

datatype vector3 = Vector3 (vx: number) (vy: number) (vz: number)

datatype euler = Euler (ex: number) (ey: number) (ez: number)

datatype geometry =
    PlaneGeometry number number
  | BoxGeometry number number number
  | CylinderGeometry number number number number
  | SphereGeometry number number number

record material =
  color :: nat
  roughness :: number
  metalness :: number
  envMapIntensity :: "number option"
  emissive :: "nat option"
  emissiveIntensity :: "number option"

record light_shadow =
  mapSize_width :: "number option"
  mapSize_height :: "number option"
  camera_near :: "number option"
  camera_far :: "number option"
  camera_left :: "number option"
  camera_right :: "number option"
  camera_top :: "number option"
  camera_bottom :: "number option"
  bias :: "number option"

datatype kind =
    AmbientLight nat number
  | DirectionalLight nat number
  | PointLight nat number number
  | Mesh geometry material

record object3d =
  kind :: kind
  position :: vector3
  rotation :: euler
  castShadow :: bool
  receiveShadow :: bool
  shadow :: light_shadow

definition default_shadow :: light_shadow where
  "default_shadow =
     \<lparr>mapSize_width = None, mapSize_height = None, camera_near = None, camera_far = None,
      camera_left = None, camera_right = None, camera_top = None, camera_bottom = None,
      bias = None\<rparr>"

definition new_object :: "kind \<Rightarrow> object3d" where
  "new_object k =
     \<lparr>kind = k, position = Vector3 (Fin 0) (Fin 0) (Fin 0),
      rotation = Euler (Fin 0) (Fin 0) (Fin 0),
      castShadow = False, receiveShadow = False, shadow = default_shadow\<rparr>"

definition position_set :: "number \<Rightarrow> number \<Rightarrow> number \<Rightarrow> object3d \<Rightarrow> object3d" where
  "position_set a b c ob = ob\<lparr>position := Vector3 a b c\<rparr>"

definition set_position_y :: "number \<Rightarrow> object3d \<Rightarrow> object3d" where
  "set_position_y v ob = ob\<lparr>position := Vector3 (vx (position ob)) v (vz (position ob))\<rparr>"

definition set_rotation_x :: "number \<Rightarrow> object3d \<Rightarrow> object3d" where
  "set_rotation_x v ob = ob\<lparr>rotation := Euler v (ey (rotation ob)) (ez (rotation ob))\<rparr>"

definition set_rotation_y :: "number \<Rightarrow> object3d \<Rightarrow> object3d" where
  "set_rotation_y v ob = ob\<lparr>rotation := Euler (ex (rotation ob)) v (ez (rotation ob))\<rparr>"

text \<open>One identity for each object that \<^verbatim>\<open>main.js\<close> binds with \<^verbatim>\<open>const\<close> (lines 159 to 316).\<close>

datatype obj_id =
    ambientLight | mainLight | accentLight | rimLight
  | floorMesh | backWall | leftWall | rightWall | ceilingMesh
  | cube | pedestal | accentSphere

subsection \<open>Lights (lines 159 to 191)\<close>

definition ambientLight_init :: object3d where
  "ambientLight_init = new_object (AmbientLight 0xb8c5d6 (lit 0.4))"

definition mainLight_init :: object3d where
  "mainLight_init =
     (position_set (lit 8) (lit 12) (lit 6) (new_object (DirectionalLight 0xffffff (lit 2.5))))
       \<lparr>castShadow := True,
        shadow := \<lparr>mapSize_width = Some (lit 2048), mapSize_height = Some (lit 2048),
                   camera_near = Some (lit 0.5), camera_far = Some (lit 30),
                   camera_left = Some (num_neg (lit 12)), camera_right = Some (lit 12),
                   camera_top = Some (lit 12), camera_bottom = Some (num_neg (lit 12)),
                   bias = Some (num_neg (lit 0.0001))\<rparr>\<rparr>"

definition accentLight_init :: object3d where
  "accentLight_init =
     (position_set (num_neg (lit 4)) (lit 3) (num_neg (lit 6))
        (new_object (PointLight 0xffa366 (lit 1.5) (lit 15))))
       \<lparr>castShadow := True,
        shadow := default_shadow\<lparr>mapSize_width := Some (lit 512),
                                 mapSize_height := Some (lit 512)\<rparr>\<rparr>"

definition rimLight_init :: object3d where
  "rimLight_init =
     position_set (lit 6) (lit 2) (lit 8) (new_object (PointLight 0x6694cc (lit 1) (lit 18)))"

subsection \<open>Room geometry (lines 198 to 263)\<close>

definition floor_init :: object3d where
  "floor_init =
     (set_rotation_x (num_div (num_neg Math_PI) (lit 2))
        (new_object (Mesh (PlaneGeometry (lit 24) (lit 24))
           \<lparr>color = 0x2d3142, roughness = lit 0.9, metalness = lit 0.1,
            envMapIntensity = None, emissive = None, emissiveIntensity = None\<rparr>)))
       \<lparr>receiveShadow := True\<rparr>"

definition backWall_init :: object3d where
  "backWall_init =
     (position_set (lit 0) (lit 6) (num_neg (lit 12))
        (new_object (Mesh (PlaneGeometry (lit 24) (lit 12))
           \<lparr>color = 0x383d52, roughness = lit 0.85, metalness = lit 0.05,
            envMapIntensity = None, emissive = None, emissiveIntensity = None\<rparr>)))
       \<lparr>receiveShadow := True\<rparr>"

definition leftWall_init :: object3d where
  "leftWall_init =
     (set_rotation_y (num_div Math_PI (lit 2))
        (position_set (num_neg (lit 12)) (lit 6) (lit 0)
           (new_object (Mesh (PlaneGeometry (lit 24) (lit 12))
              \<lparr>color = 0x343849, roughness = lit 0.85, metalness = lit 0.05,
               envMapIntensity = None, emissive = None, emissiveIntensity = None\<rparr>))))
       \<lparr>receiveShadow := True\<rparr>"

definition rightWall_init :: object3d where
  "rightWall_init =
     (set_rotation_y (num_div (num_neg Math_PI) (lit 2))
        (position_set (lit 12) (lit 6) (lit 0)
           (new_object (Mesh (PlaneGeometry (lit 24) (lit 12))
              \<lparr>color = 0x3a3f56, roughness = lit 0.85, metalness = lit 0.05,
               envMapIntensity = None, emissive = None, emissiveIntensity = None\<rparr>))))
       \<lparr>receiveShadow := True\<rparr>"

definition ceiling_init :: object3d where
  "ceiling_init =
     (set_rotation_x (num_div Math_PI (lit 2))
        (set_position_y (lit 12)
           (new_object (Mesh (PlaneGeometry (lit 24) (lit 24))
              \<lparr>color = 0x1f2332, roughness = lit 0.9, metalness = lit 0.05,
               envMapIntensity = None, emissive = None, emissiveIntensity = None\<rparr>))))
       \<lparr>receiveShadow := True\<rparr>"

subsection \<open>Cube, pedestal and accent sphere (lines 269 to 316)\<close>

definition cube_init :: object3d where
  "cube_init =
     (position_set (lit 0) (lit 1.1) (lit 0)
        (new_object (Mesh (BoxGeometry (lit 2.2) (lit 2.2) (lit 2.2))
           \<lparr>color = 0x5d7fa3, roughness = lit 0.3, metalness = lit 0.6,
            envMapIntensity = Some (lit 0.8), emissive = None, emissiveIntensity = None\<rparr>)))
       \<lparr>castShadow := True, receiveShadow := True\<rparr>"

definition pedestal_init :: object3d where
  "pedestal_init =
     (set_position_y (lit 0.15)
        (new_object (Mesh (CylinderGeometry (lit 1.8) (lit 2) (lit 0.3) (lit 32))
           \<lparr>color = 0x4a5166, roughness = lit 0.7, metalness = lit 0.3,
            envMapIntensity = None, emissive = None, emissiveIntensity = None\<rparr>)))
       \<lparr>castShadow := True, receiveShadow := True\<rparr>"

definition accentSphere_init :: object3d where
  "accentSphere_init =
     (position_set (num_neg (lit 5)) (lit 0.4) (num_neg (lit 4))
        (new_object (Mesh (SphereGeometry (lit 0.4) (lit 32) (lit 32))
           \<lparr>color = 0xf4a261, roughness = lit 0.2, metalness = lit 0.8,
            envMapIntensity = None, emissive = Some 0xf4a261,
            emissiveIntensity = Some (lit 0.1)\<rparr>)))
       \<lparr>castShadow := True\<rparr>"

fun initial_object :: "obj_id \<Rightarrow> object3d" where
  "initial_object ambientLight = ambientLight_init"
| "initial_object mainLight = mainLight_init"
| "initial_object accentLight = accentLight_init"
| "initial_object rimLight = rimLight_init"
| "initial_object floorMesh = floor_init"
| "initial_object backWall = backWall_init"
| "initial_object leftWall = leftWall_init"
| "initial_object rightWall = rightWall_init"
| "initial_object ceilingMesh = ceiling_init"
| "initial_object cube = cube_init"
| "initial_object pedestal = pedestal_init"
| "initial_object accentSphere = accentSphere_init"

section \<open>Program state\<close>

record scene =
  background :: nat
  fog :: "nat \<times> number \<times> number"
  children :: "obj_id list"

record camera =
  fov :: number
  aspect :: number
  near :: number
  far :: number
  camera_position :: vector3
  projectionMatrix :: "number list"

record renderer =
  antialias :: bool
  alpha :: bool
  width :: number
  height :: number
  pixelRatio :: number
  useLegacyLights :: bool
  shadowMap_enabled :: bool
  shadowMap_type :: string
  outputColorSpace :: string
  toneMapping :: string
  toneMappingExposure :: number

record controls =
  enableDamping :: bool
  dampingFactor :: number
  minPolarAngle :: number
  maxPolarAngle :: number
  minDistance :: number
  maxDistance :: number
  target :: vector3
  enablePan :: bool

record state =
  scene :: scene
  objects :: "obj_id \<Rightarrow> object3d"
  camera :: camera
  renderer :: renderer
  controls :: controls
  time :: number

text \<open>What the host hands to the program: the window's dimensions and pixel ratio.\<close>

record window =
  innerWidth :: number
  innerHeight :: number
  devicePixelRatio :: number

text \<open>
  Three library routines are parameters of the model. \<open>upm fov aspect near far\<close> stands
  for the camera's \<^verbatim>\<open>updateProjectionMatrix()\<close>, which computes the projection matrix from
  the camera's parameters. \<open>place\<close> stands for the \<^verbatim>\<open>update()\<close> that the constructor of
  the orbit controls runs on line 134: it recomputes the camera's position from spherical
  coordinates around the target. A value of type \<open>control_update\<close> stands for one call of
  \<^verbatim>\<open>controls.update()\<close> in a frame, which reads the pointer input gathered since the last
  frame and moves the camera. \<open>msin\<close> stands for the host's \<^verbatim>\<open>Math.sin\<close>, whose results
  the language leaves to the implementation.
\<close>

type_synonym projection = "number \<Rightarrow> number \<Rightarrow> number \<Rightarrow> number \<Rightarrow> number list"

type_synonym control_update = "controls \<Rightarrow> camera \<Rightarrow> controls \<times> camera"

type_synonym placement = "vector3 \<Rightarrow> vector3"

definition updateProjectionMatrix :: "projection \<Rightarrow> camera \<Rightarrow> camera" where
  "updateProjectionMatrix upm c = c\<lparr>projectionMatrix := upm (fov c) (aspect c) (near c) (far c)\<rparr>"

definition setSize :: "number \<Rightarrow> number \<Rightarrow> renderer \<Rightarrow> renderer" where
  "setSize w h r = r\<lparr>width := w, height := h\<rparr>"

text \<open>
  \<^verbatim>\<open>renderer.render(scene, camera)\<close> draws the scene. Of the modelled attributes it
  changes one: with shadow maps enabled, the shadow pass brings the shadow camera of every
  shadow-casting point light among the scene's children in line with the light, setting
  its far plane to the light's distance when that is non-zero
  (\<^verbatim>\<open>far = light.distance || camera.far\<close> in the library). A \<open>camera_far\<close> of \<open>None\<close> is
  the library's default, 500.
\<close>

fun truthy :: "number \<Rightarrow> bool" where
  "truthy NaN = False"
| "truthy (Fin x) = (x \<noteq> 0)"
| "truthy _ = True"

fun updateMatrices :: "object3d \<Rightarrow> kind \<Rightarrow> object3d" where
  "updateMatrices ob (PointLight c n d) =
     (if castShadow ob \<and> truthy d
      then ob\<lparr>shadow := (shadow ob)\<lparr>camera_far := Some d\<rparr>\<rparr> else ob)"
| "updateMatrices ob _ = ob"

definition render :: "state \<Rightarrow> state" where
  "render s =
     (if shadowMap_enabled (renderer s)
      then s\<lparr>objects :=
               (\<lambda>i. if i \<in> set (children (scene s))
                    then updateMatrices (objects s i) (kind (objects s i)) else objects s i)\<rparr>
      else s)"

subsection \<open>Startup (lines 84 to 316)\<close>

text \<open>
  \<open>startup\<close> is the state once the scene is built and \<^verbatim>\<open>let time = 0\<close> has run, before
  the module calls \<^verbatim>\<open>animate()\<close> for the first time on line 340. The canvas lookup and
  the creation of the drawing context belong to the host and the library. The camera is
  constructed at the origin, set to \<open>(8, 5, 10)\<close> on line 102 and placed again by the
  constructor of the orbit controls; every modelled attribute of the controls is assigned
  after that constructor.
\<close>

definition scene_init :: scene where
  "scene_init =
     \<lparr>background = 0x1a1d28, fog = (0x1a1d28, lit 10, lit 35),
      children = [ambientLight, mainLight, accentLight, rimLight,
                  floorMesh, backWall, leftWall, rightWall, ceilingMesh,
                  cube, pedestal, accentSphere]\<rparr>"

definition camera_init :: "projection \<Rightarrow> placement \<Rightarrow> window \<Rightarrow> camera" where
  "camera_init upm place win =
     (updateProjectionMatrix upm
        \<lparr>fov = lit 50, aspect = num_div (innerWidth win) (innerHeight win),
         near = lit 0.1, far = lit 100,
         camera_position = Vector3 (Fin 0) (Fin 0) (Fin 0), projectionMatrix = []\<rparr>)
       \<lparr>camera_position := place (Vector3 (lit 8) (lit 5) (lit 10))\<rparr>"

definition renderer_init :: "window \<Rightarrow> renderer" where
  "renderer_init win =
     \<lparr>antialias = True, alpha = False,
      width = innerWidth win, height = innerHeight win,
      pixelRatio = Math_min (devicePixelRatio win) (lit 2),
      useLegacyLights = False, shadowMap_enabled = True,
      shadowMap_type = ''PCFSoftShadowMap'', outputColorSpace = ''SRGBColorSpace'',
      toneMapping = ''ACESFilmicToneMapping'', toneMappingExposure = lit 1.2\<rparr>"

definition controls_init :: controls where
  "controls_init =
     \<lparr>enableDamping = True, dampingFactor = lit 0.05,
      minPolarAngle = num_div Math_PI (lit 6), maxPolarAngle = num_div Math_PI (lit 2.2),
      minDistance = lit 5, maxDistance = lit 20,
      target = Vector3 (lit 0) (lit 2) (lit 0), enablePan = False\<rparr>"

definition startup :: "projection \<Rightarrow> placement \<Rightarrow> window \<Rightarrow> state" where
  "startup upm place win =
     \<lparr>scene = scene_init, objects = initial_object, camera = camera_init upm place win,
      renderer = renderer_init win, controls = controls_init, time = lit 0\<rparr>"

subsection \<open>The frame updater (lines 322 to 338)\<close>

definition animate :: "(number \<Rightarrow> number) \<Rightarrow> control_update \<Rightarrow> state \<Rightarrow> state" where
  "animate msin upd s =
     (let t = num_add (time s) (lit 0.005);
          c1 = set_rotation_y (num_mul t (lit 0.3)) (objects s cube);
          c2 = set_rotation_x (num_mul (msin (num_mul t (lit 0.5))) (lit 0.05)) c1;
          objs1 = (objects s)(cube := c2);
          a1 = set_position_y
                 (num_add (lit 0.4) (num_mul (msin (num_mul t (lit 2))) (lit 0.1)))
                 (objs1 accentSphere);
          objs2 = objs1(accentSphere := a1);
          (ctl, cam) = upd (controls s) (camera s)
      in render (s\<lparr>objects := objs2, camera := cam, controls := ctl, time := t\<rparr>))"

subsection \<open>The resize handler (lines 346 to 350)\<close>

definition resize :: "projection \<Rightarrow> number \<Rightarrow> number \<Rightarrow> state \<Rightarrow> state" where
  "resize upm w h s =
     (let cam = updateProjectionMatrix upm ((camera s)\<lparr>aspect := num_div w h\<rparr>)
      in s\<lparr>camera := cam, renderer := setSize w h (renderer s)\<rparr>)"

subsection \<open>Event traces\<close>

text \<open>
  After startup the frame updater runs once per display refresh (the first time from the
  module itself, then through \<^verbatim>\<open>requestAnimationFrame\<close>) and the resize handler whenever
  the window changes, one at a time on a single thread. A trace lists these calls in order;
  each frame carries what \<^verbatim>\<open>controls.update()\<close> does in it.
\<close>

datatype event = Frame control_update | Resize number number

fun step :: "(number \<Rightarrow> number) \<Rightarrow> projection \<Rightarrow> state \<Rightarrow> event \<Rightarrow> state" where
  "step msin upm s (Frame upd) = animate msin upd s"
| "step msin upm s (Resize w h) = resize upm w h s"

definition run :: "(number \<Rightarrow> number) \<Rightarrow> projection \<Rightarrow> event list \<Rightarrow> state \<Rightarrow> state" where
  "run msin upm evs s = foldl (step msin upm) s evs"

fun is_frame :: "event \<Rightarrow> bool" where
  "is_frame (Frame _) = True"
| "is_frame (Resize _ _) = False"

definition frame_count :: "event list \<Rightarrow> nat" where
  "frame_count evs = length (filter is_frame evs)"

text \<open>The accumulator after \<open>n\<close> executions of \<^verbatim>\<open>time += 0.005\<close> from \<^verbatim>\<open>let time = 0\<close>.\<close>

fun time_after :: "nat \<Rightarrow> number" where
  "time_after 0 = lit 0"
| "time_after (Suc n) = num_add (time_after n) (lit 0.005)"

section \<open>Classifying scene nodes\<close>

fun is_light :: "kind \<Rightarrow> bool" where
  "is_light (AmbientLight _ _) = True"
| "is_light (DirectionalLight _ _) = True"
| "is_light (PointLight _ _ _) = True"
| "is_light (Mesh _ _) = False"

fun is_plane :: "kind \<Rightarrow> bool" where
  "is_plane (Mesh (PlaneGeometry _ _) _) = True"
| "is_plane _ = False"

fun is_box :: "kind \<Rightarrow> bool" where
  "is_box (Mesh (BoxGeometry _ _ _) _) = True"
| "is_box _ = False"

fun is_cylinder :: "kind \<Rightarrow> bool" where
  "is_cylinder (Mesh (CylinderGeometry _ _ _ _) _) = True"
| "is_cylinder _ = False"

fun is_sphere :: "kind \<Rightarrow> bool" where
  "is_sphere (Mesh (SphereGeometry _ _ _) _) = True"
| "is_sphere _ = False"

text \<open>The ground plane is the plane mesh turned to face upwards (\<^verbatim>\<open>rotation.x = -Math.PI / 2\<close>).\<close>

definition is_ground :: "object3d \<Rightarrow> bool" where
  "is_ground ob \<longleftrightarrow>
     is_plane (kind ob) \<and> ex (rotation ob) = num_div (num_neg Math_PI) (lit 2)"

text \<open>
  The real value of the accumulator: \<open>step_real\<close> is the binary64 value of the literal
  \<^verbatim>\<open>0.005\<close>, and \<open>time_real n\<close> the sum after \<open>n\<close> rounded additions.
\<close>

definition step_real :: real where
  "step_real = 5764607523034235 / 1152921504606846976"

fun time_real :: "nat \<Rightarrow> real" where
  "time_real 0 = 0"
| "time_real (Suc n) = rnd (time_real n + step_real)"

text \<open>The comparisons \<^verbatim>\<open><\<close> and \<^verbatim>\<open><=\<close> of Numbers: false as soon as one side is NaN.\<close>

fun num_less :: "number \<Rightarrow> number \<Rightarrow> bool" where
  "num_less NaN _ = False"
| "num_less _ NaN = False"
| "num_less (Fin x) (Fin y) = (x < y)"
| "num_less PosInf _ = False"
| "num_less _ NegInf = False"
| "num_less _ _ = True"

fun num_le :: "number \<Rightarrow> number \<Rightarrow> bool" where
  "num_le NaN _ = False"
| "num_le _ NaN = False"
| "num_le (Fin x) (Fin y) = (x \<le> y)"
| "num_le NegInf _ = True"
| "num_le _ PosInf = True"
| "num_le _ _ = False"

text \<open>\<open>num_near v r e\<close>: the Number \<open>v\<close> is finite and within \<open>e\<close> of the real \<open>r\<close>.\<close>

fun num_near :: "number \<Rightarrow> real \<Rightarrow> real \<Rightarrow> bool" where
  "num_near (Fin t) r e = (\<bar>t - r\<bar> \<le> e)"
| "num_near _ r e = False"

text \<open>\<open>num_between v lo hi\<close>: the Number \<open>v\<close> is finite and lies in the real interval.\<close>

fun num_between :: "number \<Rightarrow> real \<Rightarrow> real \<Rightarrow> bool" where
  "num_between (Fin v) lo hi = (lo \<le> v \<and> v \<le> hi)"
| "num_between _ lo hi = False"

text \<open>
  Stand-ins for what the host and the library supply, used where a concrete run is
  evaluated: a \<^verbatim>\<open>Math.sin\<close> that rounds the exact sine, a projection routine, a control
  update without pointer input, the camera position that the constructor of the orbit
  controls leaves, and a window of 1024 by 768.
\<close>

fun correct_sin :: "number \<Rightarrow> number" where
  "correct_sin (Fin r) = rd (sin r)"
| "correct_sin _ = NaN"

definition no_projection :: projection where
  "no_projection fv asp nr fr = []"

definition no_input :: control_update where
  "no_input ctl cam = (ctl, cam)"

definition sample_placement :: placement where
  "sample_placement p = Vector3 (lit 8) (lit 5.000000000000001) (lit 9.999999999999998)"

definition sample_window :: window where
  "sample_window = \<lparr>innerWidth = Fin 1024, innerHeight = Fin 768, devicePixelRatio = Fin 1\<rparr>"

section \<open>Evaluating Number arithmetic\<close>

lemmas float_eval =
  lit_def rd_def rnd_def ulp_def expo_def round_even_def Let_def bitlen_def compute_floorlog

lemmas object_defs =
  ambientLight_init_def mainLight_init_def accentLight_init_def rimLight_init_def
  floor_init_def backWall_init_def leftWall_init_def rightWall_init_def ceiling_init_def
  cube_init_def pedestal_init_def accentSphere_init_def
  new_object_def position_set_def set_position_y_def set_rotation_x_def set_rotation_y_def

lemma lit_0: "lit 0 = Fin 0"
  by (simp add: float_eval)

lemma neg_half_pi:
  "num_div (num_neg Math_PI) (lit 2) = Fin (- (884279719003555 / 562949953421312))"
  by (simp add: float_eval Math_PI_def)

lemma half_pi: "num_div Math_PI (lit 2) = Fin (884279719003555 / 562949953421312)"
  by (simp add: float_eval Math_PI_def)

section \<open>Rounding to binary64\<close>

lemma round_even_error: "\<bar>of_int (round_even q) - q\<bar> \<le> 1 / 2"
  unfolding round_even_def Let_def by (auto; linarith)

lemma round_even_le: "q \<le> of_int m \<Longrightarrow> round_even q \<le> m"
proof -
  assume a: "q \<le> of_int m"
  have f: "\<lfloor>q\<rfloor> \<le> m" using a by (simp add: floor_le_iff) 
  show ?thesis
  proof (cases "\<lfloor>q\<rfloor> = m")
    case True
    then have "q = of_int m" using a by (metis of_int_floor_le order_antisym)
    then show ?thesis by (simp add: round_even_def)
  next
    case False
    then have "\<lfloor>q\<rfloor> + 1 \<le> m" using f by linarith
    then show ?thesis unfolding round_even_def Let_def by auto
  qed
qed

lemma round_even_ge: "of_int m \<le> q \<Longrightarrow> m \<le> round_even q"
proof -
  assume a: "of_int m \<le> q"
  then have "m \<le> \<lfloor>q\<rfloor>" by (simp add: le_floor_iff)
  then show ?thesis unfolding round_even_def Let_def by auto
qed

lemma expo_bounds:
  assumes "x \<noteq> 0"
  shows "2 powi (expo x) \<le> \<bar>x\<bar> \<and> \<bar>x\<bar> < 2 powi (expo x + 1)"
proof (cases "1 \<le> \<bar>x\<bar>")
  case True
  define k where "k = bitlen \<lfloor>\<bar>x\<bar>\<rfloor>"
  have pos: "0 < \<lfloor>\<bar>x\<bar>\<rfloor>" using True by simp
  from bitlen_bounds[OF pos]
  have b: "2 ^ nat (k - 1) \<le> \<lfloor>\<bar>x\<bar>\<rfloor>" "\<lfloor>\<bar>x\<bar>\<rfloor> < 2 ^ nat k" by (simp_all add: k_def)
  have k1: "1 \<le> k" using pos by (auto simp: k_def bitlen_alt_def)
  have e: "expo x = k - 1" using True by (simp add: expo_def k_def)
  have "(2::real) powi (k - 1) = 2 ^ nat (k - 1)" using k1 by (simp add: power_int_def)
  also have "\<dots> = of_int (2 ^ nat (k - 1))" by simp
  also have "\<dots> \<le> of_int \<lfloor>\<bar>x\<bar>\<rfloor>" using b(1) of_int_le_iff by blast
  also have "\<dots> \<le> \<bar>x\<bar>" by simp
  finally have lo: "2 powi (k - 1) \<le> \<bar>x\<bar>" .
  have "\<lfloor>\<bar>x\<bar>\<rfloor> + 1 \<le> 2 ^ nat k" using b(2) by simp
  then have "of_int (\<lfloor>\<bar>x\<bar>\<rfloor> + 1) \<le> (of_int (2 ^ nat k) :: real)" using of_int_le_iff by blast
  then have A: "of_int \<lfloor>\<bar>x\<bar>\<rfloor> + 1 \<le> (2::real) ^ nat k" by simp
  have B: "\<bar>x\<bar> < of_int \<lfloor>\<bar>x\<bar>\<rfloor> + 1" by linarith
  from A B have "\<bar>x\<bar> < 2 ^ nat k" by linarith
  also have "(2::real) ^ nat k = 2 powi k" using k1 by (simp add: power_int_def)
  finally show ?thesis using lo e by simp
next
  case False
  define a where "a = \<bar>x\<bar>"
  have a: "0 < a" "a < 1" using assms False by (simp_all add: a_def)
  define m where "m = \<lceil>1 / a\<rceil> - 1"
  define k where "k = bitlen m"
  have "1 < 1 / a" using a by simp
  then have "1 < \<lceil>1 / a\<rceil>" by (simp add: less_ceiling_iff)
  then have pos: "0 < m" by (simp add: m_def)
  from bitlen_bounds[OF pos]
  have b: "2 ^ nat (k - 1) \<le> m" "m < 2 ^ nat k" by (simp_all add: k_def)
  have k1: "1 \<le> k" using pos by (auto simp: k_def bitlen_alt_def)
  have e: "expo x = - k" using False by (simp add: expo_def k_def m_def a_def)
  have m1: "of_int m < 1 / a" unfolding m_def using ceiling_correct[of "1 / a"] by simp
  have m2: "1 / a \<le> of_int m + 1" unfolding m_def by (simp add: le_of_int_ceiling)
  have "(2::real) ^ nat (k - 1) = of_int (2 ^ nat (k - 1))" by simp
  also have "\<dots> \<le> of_int m" using b(1) of_int_le_iff by blast
  finally have "(2::real) ^ nat (k - 1) < 1 / a" using m1 by linarith
  then have "a * 2 ^ nat (k - 1) < 1" using a by (simp add: field_simps)
  then have "a < 1 / 2 ^ nat (k - 1)" by (simp add: field_simps)
  also have "1 / (2::real) ^ nat (k - 1) = 2 powi (- k + 1)"
    using k1 by (simp add: power_int_def nat_diff_distrib field_simps)
  finally have hi: "a < 2 powi (- k + 1)" .
  have "m + 1 \<le> 2 ^ nat k" using b(2) by simp
  then have "of_int (m + 1) \<le> (of_int (2 ^ nat k) :: real)" using of_int_le_iff by blast
  then have "1 / a \<le> 2 ^ nat k" using m2 by simp
  then have "1 \<le> a * 2 ^ nat k" using a by (simp add: field_simps)
  then have "1 / 2 ^ nat k \<le> a" by (simp add: field_simps)
  moreover have "1 / (2::real) ^ nat k = 2 powi (- k)"
    using k1 by (simp add: power_int_def field_simps)
  ultimately have lo: "2 powi (- k) \<le> a" by simp
  show ?thesis using lo hi e by (simp add: a_def)
qed

lemma pow2_less_iff: "(2::real) powi a < 2 powi b \<longleftrightarrow> a < b"
proof
  assume l: "(2::real) powi a < 2 powi b"
  show "a < b"
  proof (rule ccontr)
    assume "\<not> a < b"
    then have "b \<le> a" by simp
    then have "(2::real) powi b \<le> 2 powi a" by (rule power_int_increasing) simp
    then show False using l by simp
  qed
next
  assume "a < b"
  then show "(2::real) powi a < 2 powi b" by (rule power_int_strict_increasing) simp
qed

lemma pow2_le_iff: "(2::real) powi a \<le> 2 powi b \<longleftrightarrow> a \<le> b"
  using pow2_less_iff[of b a] by (simp add: not_less[symmetric])

lemma expo_unique:
  assumes "2 powi e \<le> \<bar>x\<bar>" "\<bar>x\<bar> < 2 powi (e + 1)"
  shows "expo x = e"
proof -
  have nz: "x \<noteq> 0" using assms(1) by (smt (verit) zero_less_power_int abs_zero)
  from expo_bounds[OF nz] have b: "2 powi (expo x) \<le> \<bar>x\<bar>" "\<bar>x\<bar> < 2 powi (expo x + 1)" by simp_all
  have "(2::real) powi e < 2 powi (expo x + 1)" using assms(1) b(2) by linarith
  then have 1: "e < expo x + 1" by (simp add: pow2_less_iff) 
  have "(2::real) powi (expo x) < 2 powi (e + 1)" using assms(2) b(1) by linarith
  then have 2: "expo x < e + 1" by (simp add: pow2_less_iff) 
  show ?thesis using 1 2 by linarith
qed

lemma ulp_pos: "0 < ulp x"
  by (simp add: ulp_def)

lemma rnd_error: "\<bar>rnd x - x\<bar> \<le> ulp x / 2"
proof -
  have "rnd x - x = (of_int (round_even (x / ulp x)) - x / ulp x) * ulp x"
    using ulp_pos[of x] by (simp add: rnd_def field_simps)
  then have "\<bar>rnd x - x\<bar> = \<bar>of_int (round_even (x / ulp x)) - x / ulp x\<bar> * ulp x"
    using ulp_pos[of x] by (simp add: abs_mult)
  also have "\<dots> \<le> 1 / 2 * ulp x"
    using round_even_error[of "x / ulp x"] ulp_pos[of x] by (simp add: mult_right_mono)
  finally show ?thesis by simp
qed

lemma lit_step: "lit 0.005 = Fin step_real"
  by (simp add: float_eval step_real_def)

lemma rd_Fin: "- (2 ^ 1024) < rnd x \<Longrightarrow> rnd x < 2 ^ 1024 \<Longrightarrow> rd x = Fin (rnd x)"
  by (simp add: rd_def Let_def)

lemma expo_lt: "x \<noteq> 0 \<Longrightarrow> \<bar>x\<bar> < 2 powi k \<Longrightarrow> expo x < k"
  using expo_bounds[of x] pow2_less_iff[of "expo x" k] by linarith

lemma expo_ge: "2 powi k \<le> \<bar>x\<bar> \<Longrightarrow> k \<le> expo x"
proof -
  assume a: "2 powi k \<le> \<bar>x\<bar>"
  then have nz: "x \<noteq> 0" by (smt (verit) zero_less_power_int abs_zero)
  have "(2::real) powi k < 2 powi (expo x + 1)" using expo_bounds[OF nz] a by linarith
  then show ?thesis by (simp add: pow2_less_iff)
qed

lemma ulp_le: "x \<noteq> 0 \<Longrightarrow> \<bar>x\<bar> < 2 powi k \<Longrightarrow> - 1021 \<le> k \<Longrightarrow> ulp x \<le> 2 powi (k - 53)"
proof -
  assume a: "x \<noteq> 0" "\<bar>x\<bar> < 2 powi k" "- 1021 \<le> k"
  have "expo x < k" using a expo_lt by blast
  then have "max (expo x) (- 1022) - 52 \<le> k - 53" using a(3) by linarith
  then show ?thesis unfolding ulp_def by (simp add: pow2_le_iff)
qed

lemma rnd_rel_error:
  assumes "2 powi (- 1022) \<le> \<bar>x\<bar>"
  shows "\<bar>rnd x - x\<bar> \<le> \<bar>x\<bar> / 2 ^ 53"
proof -
  have nz: "x \<noteq> 0" using assms by (smt (verit) zero_less_power_int abs_zero)
  have e: "- 1022 \<le> expo x" using assms by (rule expo_ge)
  then have "ulp x = 2 powi (expo x - 52)" by (simp add: ulp_def max_def)
  also have "\<dots> = 2 powi (expo x) / 2 ^ 52" by (simp add: power_int_diff)
  also have "\<dots> \<le> \<bar>x\<bar> / 2 ^ 52" using expo_bounds[OF nz] by (simp add: divide_right_mono)
  finally have "ulp x / 2 \<le> \<bar>x\<bar> / 2 ^ 53" by simp
  then show ?thesis using rnd_error[of x] by linarith
qed

lemma step_gt:
  assumes "0 \<le> t" "t + step_real < 2 ^ 46"
  shows "t < rnd (t + step_real)"
proof -
  define x where "x = t + step_real"
  have c: "0 < step_real" "1 / 256 < step_real" by (simp_all add: step_real_def)
  have xp: "0 < x" "x \<noteq> 0" "\<bar>x\<bar> = x" using assms c by (simp_all add: x_def)
  have "\<bar>x\<bar> < 2 powi 46" using assms xp by (simp add: x_def)
  then have "ulp x \<le> 2 powi (46 - 53)" using xp(2) by (intro ulp_le) simp_all
  then have "ulp x \<le> 1 / 128" by (simp add: power_int_minus_divide)
  then have "\<bar>rnd x - x\<bar> \<le> 1 / 256" using rnd_error[of x] by linarith
  then show ?thesis using c unfolding x_def by linarith
qed

lemma step_fix:
  assumes "2 ^ 46 \<le> x" "x < 2 ^ 46 + 1 / 128"
  shows "rnd x = 2 ^ 46"
proof -
  have ax: "\<bar>x\<bar> = x" using assms by simp
  have "expo x = 46" using assms ax by (intro expo_unique) simp_all
  then have u: "ulp x = 1 / 64" by (simp add: ulp_def power_int_minus_divide)
  have q: "2 ^ 52 \<le> x * 64" "x * 64 < 2 ^ 52 + 1 / 2" using assms by simp_all
  have fl: "\<lfloor>x * 64\<rfloor> = 2 ^ 52" using q by (simp add: floor_eq_iff)
  have "round_even (x * 64) = 2 ^ 52" unfolding round_even_def Let_def fl using q by simp
  then show ?thesis by (simp add: rnd_def u)
qed

lemma rnd_le_pow2:
  assumes "0 < x" "x \<le> 2 powi k" "- 1074 \<le> k"
  shows "rnd x \<le> 2 powi k"
proof -
  define e where "e = max (expo x) (- 1022)"
  have "expo x \<le> k"
    using expo_bounds[of x] assms pow2_le_iff[of "expo x" k] by (smt (verit))
  then have j: "0 \<le> k - (e - 52)" using assms(3) by (simp add: e_def max_def)
  have u: "ulp x = 2 powi (e - 52)" by (simp add: ulp_def e_def)
  have "(2::real) powi k = 2 powi (k - (e - 52)) * 2 powi (e - 52)"
    by (simp flip: power_int_add)
  also have "(2::real) powi (k - (e - 52)) = of_int (2 ^ nat (k - (e - 52)))"
    using j by (simp add: power_int_def)
  finally have pk: "2 powi k = of_int (2 ^ nat (k - (e - 52))) * ulp x" by (simp add: u)
  have "x / ulp x \<le> of_int (2 ^ nat (k - (e - 52)))"
    using assms(2) ulp_pos[of x] unfolding pk by (simp add: field_simps)
  then have "round_even (x / ulp x) \<le> 2 ^ nat (k - (e - 52))" by (rule round_even_le)
  then have "(of_int (round_even (x / ulp x)) :: real) \<le> of_int (2 ^ nat (k - (e - 52)))"
    using of_int_le_iff by blast
  then show ?thesis unfolding rnd_def pk using ulp_pos[of x] by (simp add: mult_right_mono)
qed

lemma step_le:
  assumes "0 \<le> t" "t \<le> 2 ^ 46"
  shows "rnd (t + step_real) \<le> 2 ^ 46"
proof (cases "t + step_real < 2 ^ 46")
  case True
  have c: "0 < step_real" by (simp add: step_real_def)
  have "rnd (t + step_real) \<le> 2 powi 46"
    using assms True c by (intro rnd_le_pow2) simp_all
  then show ?thesis by simp
next
  case False
  have c: "step_real < 1 / 128" by (simp add: step_real_def)
  have "rnd (t + step_real) = 2 ^ 46" using False assms c by (intro step_fix) simp_all
  then show ?thesis by simp
qed

lemma step_ge:
  assumes "0 \<le> t" "t \<le> 2 ^ 46"
  shows "t \<le> rnd (t + step_real)"
proof (cases "t + step_real < 2 ^ 46")
  case True
  then show ?thesis using step_gt[OF assms(1)] by simp
next
  case False
  have c: "step_real < 1 / 128" by (simp add: step_real_def)
  have "rnd (t + step_real) = 2 ^ 46" using False assms c by (intro step_fix) simp_all
  then show ?thesis using assms by simp
qed

lemma time_real_range: "0 \<le> time_real n \<and> time_real n \<le> 2 ^ 46"
proof (induction n)
  case 0
  show ?case by simp
next
  case (Suc n)
  then show ?case using step_le[of "time_real n"] step_ge[of "time_real n"] by simp
qed

lemma time_after_Fin: "time_after n = Fin (time_real n)"
proof (induction n)
  case 0
  show ?case by (simp add: lit_0)
next
  case (Suc n)
  have r: "0 \<le> time_real (Suc n)" "time_real (Suc n) \<le> 2 ^ 46"
    using time_real_range[of "Suc n"] by simp_all
  have "(2::real) ^ 46 < 2 ^ 1024" by simp
  then have "rd (time_real n + step_real) = Fin (rnd (time_real n + step_real))"
    using r by (intro rd_Fin) simp_all
  then show ?case using Suc by (simp only: time_after.simps time_real.simps lit_step num_add.simps)
qed

lemma step_real_ge: "2 powi (- 1022) \<le> step_real"
proof -
  have "(2::real) powi (- 1022) \<le> 2 powi (- 8)" by (simp add: pow2_le_iff)
  also have "\<dots> \<le> step_real" by (simp add: step_real_def power_int_minus_divide)
  finally show ?thesis .
qed

lemma time_real_error:
  "real n \<le> 2 ^ 53 \<Longrightarrow> \<bar>time_real n - real n * step_real\<bar> \<le> (real n)\<^sup>2 * step_real / 2 ^ 53"
proof (induction n)
  case 0
  show ?case by simp
next
  case (Suc n)
  define t where "t = time_real n"
  define c where "c = step_real"
  define m where "m = real n"
  have m: "0 \<le> m" "m \<le> 2 ^ 53" using Suc.prems by (simp_all add: m_def)
  have c: "0 < c" by (simp add: c_def step_real_def)
  have t0: "0 \<le> t" using time_real_range[of n] by (simp add: t_def)
  have ih: "\<bar>t - m * c\<bar> \<le> m\<^sup>2 * c / 2 ^ 53" using Suc.IH m by (simp add: t_def c_def m_def)
  have "2 powi (- 1022) \<le> \<bar>t + c\<bar>" using step_real_ge t0 c by (simp add: c_def)
  then have "\<bar>rnd (t + c) - (t + c)\<bar> \<le> \<bar>t + c\<bar> / 2 ^ 53" by (rule rnd_rel_error)
  then have e1: "\<bar>rnd (t + c) - (t + c)\<bar> \<le> (t + c) / 2 ^ 53" using t0 c by simp
  have "t \<le> m * c + m\<^sup>2 * c / 2 ^ 53" using ih by linarith
  then have "(t + c) / 2 ^ 53 \<le> (m * c + m\<^sup>2 * c / 2 ^ 53 + c) / 2 ^ 53"
    by (simp add: divide_right_mono)
  then have e2: "\<bar>rnd (t + c) - (t + c)\<bar> \<le> (m * c + m\<^sup>2 * c / 2 ^ 53 + c) / 2 ^ 53"
    using e1 by linarith
  have "m * m \<le> m * 2 ^ 53" using m by (intro mult_left_mono) simp_all
  then have "m\<^sup>2 / 2 ^ 53 \<le> m" by (simp add: power2_eq_square field_simps)
  then have "(m\<^sup>2 / 2 ^ 53) * c \<le> m * c" using c by (intro mult_right_mono) simp_all
  then have "m * c + m\<^sup>2 * c / 2 ^ 53 + c \<le> (2 * m + 1) * c" by (simp add: algebra_simps)
  then have "(m * c + m\<^sup>2 * c / 2 ^ 53 + c) / 2 ^ 53 \<le> (2 * m + 1) * c / 2 ^ 53"
    by (simp add: divide_right_mono)
  then have e3: "\<bar>rnd (t + c) - (t + c)\<bar> \<le> (2 * m + 1) * c / 2 ^ 53" using e2 by linarith
  have "\<bar>rnd (t + c) - (m + 1) * c\<bar> \<le> \<bar>rnd (t + c) - (t + c)\<bar> + \<bar>t - m * c\<bar>"
    by (simp add: algebra_simps)
  also have "\<dots> \<le> (2 * m + 1) * c / 2 ^ 53 + m\<^sup>2 * c / 2 ^ 53" using e3 ih by linarith
  also have "\<dots> = (m + 1)\<^sup>2 * c / 2 ^ 53" by (simp add: power2_eq_square algebra_simps)
  finally show ?case by (simp add: t_def c_def m_def add.commute)
qed

lemma time_real_near:
  assumes "real n \<le> 2 ^ 53"
  shows "\<bar>time_real n - real n * (5 / 1000)\<bar> \<le> (real n)\<^sup>2 / 2 ^ 60"
proof (cases "n = 0")
  case True
  then show ?thesis by simp
next
  case False
  define m where "m = real n"
  have m1: "1 \<le> m" using False by (simp add: m_def)
  then have mm: "m \<le> m\<^sup>2" by (simp add: power2_eq_square)
  have e: "\<bar>time_real n - m * step_real\<bar> \<le> m\<^sup>2 * step_real / 2 ^ 53"
    using time_real_error[OF assms] by (simp add: m_def)
  have d: "step_real - 5 / 1000 = 24 / (200 * 2 ^ 60)" by (simp add: step_real_def)
  define dd :: real where "dd = 24 / (200 * 2 ^ 60)"
  have dd0: "0 \<le> dd" by (simp add: dd_def)
  have md: "0 \<le> m * dd" using m1 dd0 by simp
  have "time_real n - m * (5 / 1000) = (time_real n - m * step_real) + m * (step_real - 5 / 1000)"
    by (simp add: algebra_simps)
  then have "time_real n - m * (5 / 1000) = (time_real n - m * step_real) + m * dd"
    unfolding d dd_def by simp
  then have "\<bar>time_real n - m * (5 / 1000)\<bar> \<le> \<bar>time_real n - m * step_real\<bar> + m * dd"
    using md by linarith
  also have "\<dots> \<le> m\<^sup>2 * step_real / 2 ^ 53 + m * dd"
    using e by linarith
  also have "\<dots> = m\<^sup>2 * step_real / 2 ^ 53 + m * (24 / (200 * 2 ^ 60))"
    by (simp add: dd_def)
  also have "\<dots> \<le> m\<^sup>2 * step_real / 2 ^ 53 + m\<^sup>2 * (24 / (200 * 2 ^ 60))"
    using mm by (simp add: mult_right_mono)
  also have "\<dots> = m\<^sup>2 * (step_real / 2 ^ 53 + 24 / (200 * 2 ^ 60))" by (simp add: algebra_simps)
  also have "\<dots> \<le> m\<^sup>2 * (1 / 2 ^ 60)"
    by (intro mult_left_mono) (simp_all add: step_real_def)
  finally show ?thesis by (simp add: m_def)
qed

lemma rnd_grid:
  assumes "2 powi (- 8) \<le> x"
  shows "\<exists>k::int. rnd x = of_int k / 2 ^ 60"
proof -
  have ax: "2 powi (- 8) \<le> \<bar>x\<bar>" using assms by simp
  have e: "- 8 \<le> expo x" using ax by (rule expo_ge)
  then have "ulp x = 2 powi (expo x - 52)" by (simp add: ulp_def max_def)
  also have "\<dots> = 2 powi ((expo x + 8) + (- 60))" by simp
  also have "\<dots> = 2 powi (expo x + 8) * 2 powi (- 60)" by (rule power_int_add) simp
  also have "(2::real) powi (expo x + 8) = of_int (2 ^ nat (expo x + 8))"
    using e by (simp add: power_int_def)
  finally have u: "ulp x = of_int (2 ^ nat (expo x + 8)) / 2 ^ 60"
    by (simp add: power_int_minus_divide)
  have "rnd x = of_int (round_even (x / ulp x) * 2 ^ nat (expo x + 8)) / 2 ^ 60"
    unfolding rnd_def by (subst (2) u) simp
  then show ?thesis by blast
qed

lemma time_real_grid: "\<exists>k::int. time_real n = of_int k / 2 ^ 60"
proof (cases n)
  case 0
  have "time_real 0 = of_int 0 / 2 ^ 60" by simp
  then show ?thesis using 0 by blast
next
  case (Suc m)
  have "2 powi (- 8) \<le> step_real" by (simp add: step_real_def power_int_minus_divide)
  then have "2 powi (- 8) \<le> time_real m + step_real" using time_real_range[of m] by linarith
  then show ?thesis using Suc rnd_grid by simp
qed

lemma time_real_not_strict: "\<not> (\<forall>n. time_real n < time_real (Suc n))"
proof
  assume a: "\<forall>n. time_real n < time_real (Suc n)"
  have grow: "real n / 2 ^ 60 \<le> time_real n" for n
  proof (induction n)
    case 0
    show ?case by simp
  next
    case (Suc n)
    obtain k where k: "time_real n = of_int k / 2 ^ 60" using time_real_grid by blast
    obtain k' where k': "time_real (Suc n) = of_int k' / 2 ^ 60" using time_real_grid by blast
    have "time_real n < time_real (Suc n)" using a by blast
    then have "(of_int k :: real) < of_int k'" unfolding k k' by (simp add: divide_strict_right_mono)
    then have "k + 1 \<le> k'" by simp
    then have "(of_int (k + 1) :: real) \<le> of_int k'" using of_int_le_iff by blast
    then have "(of_int k + 1) / 2 ^ 60 \<le> (of_int k' :: real) / 2 ^ 60"
      by (simp add: divide_right_mono)
    then have "time_real n + 1 / 2 ^ 60 \<le> time_real (Suc n)"
      unfolding k k' by (simp add: add_divide_distrib)
    then show ?case using Suc by (simp add: add_divide_distrib)
  qed
  define N :: nat where "N = 2 ^ 107"
  have rn: "real N = 2 ^ 47 * 2 ^ 60" by (simp add: N_def)
  have "real N / 2 ^ 60 \<le> time_real N" by (rule grow)
  then have "(2::real) ^ 47 \<le> time_real N" unfolding rn by simp
  moreover have "time_real N \<le> 2 ^ 46" using time_real_range by blast
  ultimately show False by simp
qed

section \<open>The first frames, evaluated\<close>

lemmas rnd_eval = rnd_def ulp_def expo_def round_even_def Let_def bitlen_def compute_floorlog

lemma time_real_1: "time_real 1 = 5764607523034235 / 1152921504606846976"
  by (simp add: step_real_def rnd_eval)

lemma time_real_2: "time_real 2 = 5764607523034235 / 576460752303423488"
proof -
  have "time_real 2 = rnd (time_real 1 + step_real)" by (simp add: eval_nat_numeral)
  also have "\<dots> = 5764607523034235 / 576460752303423488"
    unfolding time_real_1 step_real_def by (simp add: rnd_eval)
  finally show ?thesis .
qed

lemma time_real_3: "time_real 3 = 1080863910568919 / 72057594037927936"
proof -
  have "time_real 3 = rnd (time_real 2 + step_real)" by (simp add: eval_nat_numeral)
  also have "\<dots> = 1080863910568919 / 72057594037927936"
    unfolding time_real_2 step_real_def by (simp add: rnd_eval)
  finally show ?thesis .
qed

lemma time_real_4: "time_real 4 = 5764607523034235 / 288230376151711744"
proof -
  have "time_real 4 = rnd (time_real 3 + step_real)" by (simp add: eval_nat_numeral)
  also have "\<dots> = 5764607523034235 / 288230376151711744"
    unfolding time_real_3 step_real_def by (simp add: rnd_eval)
  finally show ?thesis .
qed

lemma time_real_5: "time_real 5 = 3602879701896397 / 144115188075855872"
proof -
  have "time_real 5 = rnd (time_real 4 + step_real)" by (simp add: eval_nat_numeral)
  also have "\<dots> = 3602879701896397 / 144115188075855872"
    unfolding time_real_4 step_real_def by (simp add: rnd_eval)
  finally show ?thesis .
qed

lemma time_real_6: "time_real 6 = 8646911284551353 / 288230376151711744"
proof -
  have "time_real 6 = rnd (time_real 5 + step_real)" by (simp add: eval_nat_numeral)
  also have "\<dots> = 8646911284551353 / 288230376151711744"
    unfolding time_real_5 step_real_def by (simp add: rnd_eval)
  finally show ?thesis .
qed

lemma product_0: "num_mul (lit 0.005) (Fin 0) = Fin (0)"
  by (simp add: float_eval)

lemma product_1: "num_mul (lit 0.005) (Fin 1) = Fin (5764607523034235 / 1152921504606846976)"
  by (simp add: float_eval)

lemma product_2: "num_mul (lit 0.005) (Fin 2) = Fin (5764607523034235 / 576460752303423488)"
  by (simp add: float_eval)

lemma product_3: "num_mul (lit 0.005) (Fin 3) = Fin (1080863910568919 / 72057594037927936)"
  by (simp add: float_eval)

lemma product_4: "num_mul (lit 0.005) (Fin 4) = Fin (5764607523034235 / 288230376151711744)"
  by (simp add: float_eval)

lemma product_5: "num_mul (lit 0.005) (Fin 5) = Fin (3602879701896397 / 144115188075855872)"
  by (simp add: float_eval)

lemma product_6: "num_mul (lit 0.005) (Fin 6) = Fin (1080863910568919 / 36028797018963968)"
  by (simp add: float_eval)

lemma rotation_6_sum: "num_mul (Fin (8646911284551353 / 288230376151711744)) (lit 0.3) = Fin (1297036692682703 / 144115188075855872)"
  by (simp add: float_eval)

lemma rotation_6_product: "num_mul (Fin (1080863910568919 / 36028797018963968)) (lit 0.3) = Fin (5188146770730811 / 576460752303423488)"
  by (simp add: float_eval)

section \<open>Event traces from startup\<close>

lemma run_Nil: "run msin upm [] s = s"
  by (simp add: run_def)

lemma run_snoc: "run msin upm (evs @ [e]) s = step msin upm (run msin upm evs s) e"
  by (simp add: run_def)

lemma frame_count_Nil: "frame_count [] = 0"
  by (simp add: frame_count_def)

lemma frame_count_snoc_Frame: "frame_count (evs @ [Frame upd]) = Suc (frame_count evs)"
  by (simp add: frame_count_def)

lemma frame_count_snoc_Resize: "frame_count (evs @ [Resize w h]) = frame_count evs"
  by (simp add: frame_count_def)

lemma frame_count_replicate: "frame_count (replicate n (Frame upd)) = n"
  by (simp add: frame_count_def)


lemma updateMatrices_Mesh: "updateMatrices ob (Mesh g m) = ob"
  by simp

lemma render_fields:
  "time (render s) = time s \<and> scene (render s) = scene s \<and> camera (render s) = camera s \<and>
   controls (render s) = controls s \<and> renderer (render s) = renderer s"
  by (simp add: render_def)

lemma render_objects:
  "objects (render s) i =
     (if shadowMap_enabled (renderer s) \<and> i \<in> set (children (scene s))
      then updateMatrices (objects s i) (kind (objects s i)) else objects s i)"
  by (simp add: render_def)

lemma render_Mesh: "kind (objects s i) = Mesh g m \<Longrightarrow> objects (render s) i = objects s i"
  by (simp add: render_objects)

lemma animate_time: "time (animate msin upd s) = num_add (time s) (lit 0.005)"
  by (simp add: animate_def Let_def render_fields split: prod.split)




text \<open>The objects as the frame updater's own assignments leave them, before the render.\<close>

lemma animate_objects:
  "objects (animate msin upd s) i =
     (if shadowMap_enabled (renderer s) \<and> i \<in> set (children (scene s))
      then updateMatrices
             (((objects s)
                (cube := set_rotation_x
                  (num_mul (msin (num_mul (num_add (time s) (lit 0.005)) (lit 0.5))) (lit 0.05))
                  (set_rotation_y (num_mul (num_add (time s) (lit 0.005)) (lit 0.3))
                     (objects s cube)),
                 accentSphere := set_position_y
                  (num_add (lit 0.4)
                     (num_mul (msin (num_mul (num_add (time s) (lit 0.005)) (lit 2))) (lit 0.1)))
                  (objects s accentSphere))) i)
             (kind (((objects s)
                (cube := set_rotation_x
                  (num_mul (msin (num_mul (num_add (time s) (lit 0.005)) (lit 0.5))) (lit 0.05))
                  (set_rotation_y (num_mul (num_add (time s) (lit 0.005)) (lit 0.3))
                     (objects s cube)),
                 accentSphere := set_position_y
                  (num_add (lit 0.4)
                     (num_mul (msin (num_mul (num_add (time s) (lit 0.005)) (lit 2))) (lit 0.1)))
                  (objects s accentSphere))) i))
      else ((objects s)
                (cube := set_rotation_x
                  (num_mul (msin (num_mul (num_add (time s) (lit 0.005)) (lit 0.5))) (lit 0.05))
                  (set_rotation_y (num_mul (num_add (time s) (lit 0.005)) (lit 0.3))
                     (objects s cube)),
                 accentSphere := set_position_y
                  (num_add (lit 0.4)
                     (num_mul (msin (num_mul (num_add (time s) (lit 0.005)) (lit 2))) (lit 0.1)))
                  (objects s accentSphere))) i)"
  by (simp only: animate_def Let_def render_objects split: prod.split) simp

lemma animate_cube:
  assumes "kind (objects s cube) = Mesh g m"
  shows "objects (animate msin upd s) cube =
           set_rotation_x
             (num_mul (msin (num_mul (num_add (time s) (lit 0.005)) (lit 0.5))) (lit 0.05))
             (set_rotation_y (num_mul (num_add (time s) (lit 0.005)) (lit 0.3))
                (objects s cube))"
  unfolding animate_objects using assms
  by (simp add: set_rotation_x_def set_rotation_y_def)

lemma animate_sphere:
  assumes "kind (objects s accentSphere) = Mesh g m"
  shows "objects (animate msin upd s) accentSphere =
           set_position_y
             (num_add (lit 0.4)
                (num_mul (msin (num_mul (num_add (time s) (lit 0.005)) (lit 2))) (lit 0.1)))
             (objects s accentSphere)"
  unfolding animate_objects using assms
  by (simp add: set_position_y_def)


lemma run_time: "time (run msin upm evs s) = 
  ((\<lambda>t. num_add t (lit 0.005)) ^^ frame_count evs) (time s)"
proof (induction evs rule: rev_induct)
  case Nil
  show ?case by (simp only: run_Nil frame_count_Nil funpow_0)
next
  case (snoc e evs)
  show ?case
  proof (cases e)
    case (Frame upd)
    show ?thesis unfolding Frame run_snoc step.simps animate_time frame_count_snoc_Frame snoc.IH
      by (simp only: funpow.simps o_apply)
  next
    case (Resize w h)
    show ?thesis unfolding Resize run_snoc step.simps frame_count_snoc_Resize
      using snoc.IH by (simp add: resize_def Let_def)
  qed
qed

lemma time_after_funpow: "time_after n = ((\<lambda>t. num_add t (lit 0.005)) ^^ n) (lit 0)"
  by (induction n) (simp_all only: time_after.simps funpow.simps o_apply id_apply)

lemma run_startup_time:
  "time (run msin upm evs (startup upm place win)) = time_after (frame_count evs)"
  unfolding run_time time_after_funpow by (simp only: startup_def state.simps)



lemma resize_objects: "objects (resize upm w h s) = objects s"
  by (simp add: resize_def Let_def)

lemma cube_overwrite:
  "ez (rotation ob) = Fin 0 \<Longrightarrow>
   set_rotation_x a (set_rotation_y b ob) = ob\<lparr>rotation := Euler a b (Fin 0)\<rparr>"
  by (simp add: set_rotation_x_def set_rotation_y_def)

lemma cube_init_ez: "ez (rotation cube_init) = Fin 0"
  by (simp add: object_defs)

lemma cube_init_kind: "\<exists>g m. kind cube_init = Mesh g m"
  by (simp add: object_defs)

lemma sphere_init_kind: "\<exists>g m. kind accentSphere_init = Mesh g m"
  by (simp add: object_defs)

lemma run_cube:
  "objects (run msin upm evs (startup upm place win)) cube =
     (if frame_count evs = 0 then cube_init
      else cube_init\<lparr>rotation :=
             Euler (num_mul (msin (num_mul (time_after (frame_count evs)) (lit 0.5))) (lit 0.05))
                   (num_mul (time_after (frame_count evs)) (lit 0.3)) (Fin 0)\<rparr>)"
proof (induction evs rule: rev_induct)
  case Nil
  show ?case by (simp add: run_Nil frame_count_Nil startup_def)
next
  case (snoc e evs)
  show ?case
  proof (cases e)
    case (Frame upd)
    have t: "num_add (time (run msin upm evs (startup upm place win))) (lit 0.005)
               = time_after (Suc (frame_count evs))"
      by (simp only: run_startup_time time_after.simps)
    obtain g m where k: "kind (objects (run msin upm evs (startup upm place win)) cube) = Mesh g m"
      unfolding snoc.IH using cube_init_kind by (cases "frame_count evs = 0") auto
    have "objects (run msin upm (evs @ [e]) (startup upm place win)) cube =
            set_rotation_x
              (num_mul (msin (num_mul (time_after (Suc (frame_count evs))) (lit 0.5))) (lit 0.05))
              (set_rotation_y (num_mul (time_after (Suc (frame_count evs))) (lit 0.3))
                 (objects (run msin upm evs (startup upm place win)) cube))"
      unfolding Frame run_snoc step.simps animate_cube[OF k] t by simp
    also have "\<dots> = cube_init\<lparr>rotation :=
             Euler (num_mul (msin (num_mul (time_after (Suc (frame_count evs))) (lit 0.5))) (lit 0.05))
                   (num_mul (time_after (Suc (frame_count evs))) (lit 0.3)) (Fin 0)\<rparr>"
      unfolding snoc.IH by (simp add: cube_overwrite cube_init_ez)
    finally show ?thesis unfolding Frame frame_count_snoc_Frame by simp
  next
    case (Resize w h)
    show ?thesis unfolding Resize run_snoc step.simps frame_count_snoc_Resize resize_objects
      by (rule snoc.IH)
  qed
qed

lemma run_sphere:
  "objects (run msin upm evs (startup upm place win)) accentSphere =
     (if frame_count evs = 0 then accentSphere_init
      else accentSphere_init\<lparr>position :=
             Vector3 (num_neg (lit 5))
               (num_add (lit 0.4)
                  (num_mul (msin (num_mul (time_after (frame_count evs)) (lit 2))) (lit 0.1)))
               (num_neg (lit 4))\<rparr>)"
proof (induction evs rule: rev_induct)
  case Nil
  show ?case by (simp add: run_Nil frame_count_Nil startup_def)
next
  case (snoc e evs)
  show ?case
  proof (cases e)
    case (Frame upd)
    have t: "num_add (time (run msin upm evs (startup upm place win))) (lit 0.005)
               = time_after (Suc (frame_count evs))"
      by (simp only: run_startup_time time_after.simps)
    obtain g m where
      k: "kind (objects (run msin upm evs (startup upm place win)) accentSphere) = Mesh g m"
      unfolding snoc.IH using sphere_init_kind by (cases "frame_count evs = 0") auto
    have "objects (run msin upm (evs @ [e]) (startup upm place win)) accentSphere =
            set_position_y
              (num_add (lit 0.4)
                 (num_mul (msin (num_mul (time_after (Suc (frame_count evs))) (lit 2))) (lit 0.1)))
              (objects (run msin upm evs (startup upm place win)) accentSphere)"
      unfolding Frame run_snoc step.simps animate_sphere[OF k] t by simp
    also have "\<dots> = accentSphere_init\<lparr>position :=
             Vector3 (num_neg (lit 5))
               (num_add (lit 0.4)
                  (num_mul (msin (num_mul (time_after (Suc (frame_count evs))) (lit 2))) (lit 0.1)))
               (num_neg (lit 4))\<rparr>"
      unfolding snoc.IH
      by (cases "frame_count evs = 0")
         (simp_all add: set_position_y_def accentSphere_init_def position_set_def new_object_def)
    finally show ?thesis unfolding Frame frame_count_snoc_Frame by simp
  next
    case (Resize w h)
    show ?thesis unfolding Resize run_snoc step.simps frame_count_snoc_Resize resize_objects
      by (rule snoc.IH)
  qed
qed

lemma time_after_small:
  assumes "n \<le> 5"
  shows "time_after n = num_mul (lit 0.005) (Fin (real n))"
proof -
  have "n = 0 \<or> n = 1 \<or> n = 2 \<or> n = 3 \<or> n = 4 \<or> n = 5" using assms by linarith
  then show ?thesis
    unfolding time_after_Fin
    using product_0 product_1 product_2 product_3 product_4 product_5
      time_real_1 time_real_2 time_real_3 time_real_4 time_real_5
    by auto
qed

lemma time_after_near:
  assumes "n \<le> 2 ^ 53"
  shows "num_near (time_after n) (real n * 0.005) ((real n)\<^sup>2 / 2 ^ 60)"
proof -
  have "real n \<le> real (2 ^ 53)" using assms of_nat_le_iff by blast
  then have "real n \<le> 2 ^ 53" by simp
  then show ?thesis unfolding time_after_Fin num_near.simps using time_real_near[of n] by simp
qed


section \<open>The render step and the other objects\<close>















section \<open>A correctly rounded sine\<close>

text \<open>
  Where a concrete \<^verbatim>\<open>Math.sin\<close> is needed, the exact sine is enclosed by its Maclaurin
  polynomial of degree nine and rounded; the enclosure is far narrower than the spacing of
  the Numbers at the arguments used.
\<close>

lemma round_even_near: "\<bar>q - of_int k\<bar> < 1 / 2 \<Longrightarrow> round_even q = k"
proof (cases "of_int k \<le> q")
  case True
  assume a: "\<bar>q - of_int k\<bar> < 1 / 2"
  have f: "\<lfloor>q\<rfloor> = k" using True a by (simp add: floor_eq_iff)
  show ?thesis unfolding round_even_def Let_def f using True a by simp
next
  case False
  assume a: "\<bar>q - of_int k\<bar> < 1 / 2"
  have f: "\<lfloor>q\<rfloor> = k - 1" using False a by (simp add: floor_eq_iff)
  show ?thesis unfolding round_even_def Let_def f using False a by simp
qed

lemma rnd_near_grid:
  assumes "2 ^ 52 < k" "k < 2 ^ 53" "- 1074 \<le> j"
    and "\<bar>x - of_int k * 2 powi j\<bar> < 2 powi j / 2"
  shows "rnd x = of_int k * 2 powi j"
proof -
  define u :: real where "u = 2 powi j"
  have u0: "0 < u" by (simp add: u_def)
  have k1: "(2 ^ 52 + 1 :: real) \<le> of_int k"
  proof -
    have "2 ^ 52 + 1 \<le> k" using assms(1) by simp
    then have "(of_int (2 ^ 52 + 1) :: real) \<le> of_int k" using of_int_le_iff by blast
    then show ?thesis by simp
  qed
  have k2: "(of_int k :: real) \<le> 2 ^ 53 - 1"
  proof -
    have "k \<le> 2 ^ 53 - 1" using assms(2) by simp
    then have "(of_int k :: real) \<le> of_int (2 ^ 53 - 1)" using of_int_le_iff by blast
    then show ?thesis by simp
  qed
  have g1: "(2 ^ 52 + 1) * u \<le> of_int k * u" using k1 u0 by (simp add: mult_right_mono)
  have g2: "of_int k * u \<le> (2 ^ 53 - 1) * u" using k2 u0 by (simp add: mult_right_mono)
  have d: "\<bar>x - of_int k * u\<bar> < u / 2" using assms(4) by (simp add: u_def)
  define g where "g = of_int k * u"
  have d': "g - x < u / 2" "x - g < u / 2" using d unfolding g_def by linarith+
  have g1': "2 ^ 52 * u + u \<le> g" using g1 by (simp add: algebra_simps g_def)
  have g2': "g \<le> 2 ^ 53 * u - u" using g2 by (simp add: algebra_simps g_def)
  have lo: "2 ^ 52 * u \<le> x" using d' g1' u0 by linarith
  have hi: "x < 2 ^ 53 * u" using d' g2' u0 by linarith
  have xp: "\<bar>x\<bar> = x" using lo u0 by (smt (verit) mult_pos_pos zero_less_power)
  have p52: "(2::real) powi (j + 52) = 2 ^ 52 * u"
    unfolding u_def by (subst power_int_add) simp_all
  have p53: "(2::real) powi (j + 52 + 1) = 2 ^ 53 * u"
    unfolding u_def by (subst power_int_add, simp, subst power_int_add) simp_all
  have e: "expo x = j + 52"
    by (rule expo_unique) (simp_all only: xp p52 p53 lo hi)
  have "max (j + 52) (- 1022) - 52 = j" using assms(3) by simp
  then have ul: "ulp x = u" unfolding ulp_def e u_def by simp
  have "\<bar>x / u - of_int k\<bar> = \<bar>x - of_int k * u\<bar> / u" using u0 by (simp add: field_simps abs_divide flip: abs_mult)
  also have "\<dots> < 1 / 2" using d u0 by (simp add: field_simps)
  finally have "round_even (x / u) = k" by (rule round_even_near)
  then show ?thesis by (simp add: rnd_def ul u_def)
qed

lemma sin_series_11:
  "(\<Sum>m<11. sin_coeff m * x ^ m)
     = x - x ^ 3 / 6 + x ^ 5 / 120 - x ^ 7 / 5040 + x ^ 9 / 362880" for x :: real
  by (simp add: eval_nat_numeral sin_coeff_Suc cos_coeff_Suc)

lemma sin_enclosure:
  "\<bar>sin x - (x - x ^ 3 / 6 + x ^ 5 / 120 - x ^ 7 / 5040 + x ^ 9 / 362880)\<bar>
     \<le> \<bar>x\<bar> ^ 11 / 39916800" for x :: real
proof -
  have f: "(fact 11 :: real) = 39916800" by (simp add: fact_numeral)
  have "\<bar>sin x - (\<Sum>m<11. sin_coeff m * x ^ m)\<bar> \<le> inverse (fact 11) * \<bar>x\<bar> ^ 11"
    by (rule Maclaurin_sin_bound)
  moreover have "inverse (39916800::real) * \<bar>x\<bar> ^ 11 = \<bar>x\<bar> ^ 11 / 39916800" by simp
  ultimately show ?thesis unfolding sin_series_11 f by simp
qed

lemma rnd_sin_at:
  assumes "2 ^ 52 < k" "k < 2 ^ 53" "- 1074 \<le> j"
    and "\<bar>(x - x ^ 3 / 6 + x ^ 5 / 120 - x ^ 7 / 5040 + x ^ 9 / 362880) - of_int k * 2 powi j\<bar>
           + \<bar>x\<bar> ^ 11 / 39916800 < 2 powi j / 2"
  shows "rnd (sin x) = of_int k * 2 powi j"
proof -
  have "\<bar>sin x - of_int k * 2 powi j\<bar> < 2 powi j / 2"
    using sin_enclosure[of x] assms(4) by linarith
  then show ?thesis using assms(1-3) by (intro rnd_near_grid)
qed

lemma sin_sum_6:
  "correct_sin (Fin (8646911284551353 / 144115188075855872))
     = Fin (8641724071566999 / 144115188075855872)"
proof -
  have "rnd (sin (8646911284551353 / 144115188075855872))
          = of_int 8641724071566999 * 2 powi (- 57)"
    by (rule rnd_sin_at) (simp_all add: power_int_minus_divide power_divide)
  then have r: "rnd (sin (8646911284551353 / 144115188075855872))
          = 8641724071566999 / 144115188075855872"
    by (simp add: power_int_minus_divide)
  show ?thesis unfolding correct_sin.simps by (subst rd_Fin) (simp_all add: r)
qed

lemma sin_product_6:
  "correct_sin (Fin (1080863910568919 / 18014398509481984))
     = Fin (4320862035783499 / 72057594037927936)"
proof -
  have "rnd (sin (1080863910568919 / 18014398509481984))
          = of_int 8641724071566998 * 2 powi (- 57)"
    by (rule rnd_sin_at) (simp_all add: power_int_minus_divide power_divide)
  then have r: "rnd (sin (1080863910568919 / 18014398509481984))
          = 4320862035783499 / 72057594037927936"
    by (simp add: power_int_minus_divide)
  show ?thesis unfolding correct_sin.simps by (subst rd_Fin) (simp_all add: r)
qed

lemma height_sum_6:
  "num_mul (Fin (8646911284551353 / 288230376151711744)) (lit 2)
     = Fin (8646911284551353 / 144115188075855872) \<and>
   num_mul (Fin (8641724071566999 / 144115188075855872)) (lit 0.1)
     = Fin (216043101789175 / 36028797018963968) \<and>
   num_add (lit 0.4) (Fin (216043101789175 / 36028797018963968))
     = Fin (3656890477343691 / 9007199254740992)"
  by (simp add: float_eval)

lemma height_product_6:
  "num_mul (Fin (1080863910568919 / 36028797018963968)) (lit 2)
     = Fin (1080863910568919 / 18014398509481984) \<and>
   num_mul (Fin (4320862035783499 / 72057594037927936)) (lit 0.1)
     = Fin (6913379257253599 / 1152921504606846976) \<and>
   num_add (lit 0.4) (Fin (6913379257253599 / 1152921504606846976))
     = Fin (7313780954687381 / 18014398509481984)"
  by (simp add: float_eval)

lemma sin_frame_1:
  "correct_sin (Fin (5764607523034235 / 576460752303423488))
     = Fin (5764511446722567 / 576460752303423488)"
proof -
  have "rnd (sin (5764607523034235 / 576460752303423488))
          = of_int 5764511446722567 * 2 powi (- 59)"
    by (rule rnd_sin_at) (simp_all add: power_int_minus_divide power_divide)
  then have r: "rnd (sin (5764607523034235 / 576460752303423488))
          = 5764511446722567 / 576460752303423488"
    by (simp add: power_int_minus_divide)
  show ?thesis unfolding correct_sin.simps by (subst rd_Fin) (simp_all add: r)
qed

lemma height_frame_1:
  "num_mul (Fin (5764607523034235 / 1152921504606846976)) (lit 2)
     = Fin (5764607523034235 / 576460752303423488) \<and>
   num_mul (Fin (5764511446722567 / 576460752303423488)) (lit 0.1)
     = Fin (2305804578689027 / 2305843009213693952) \<and>
   num_add (lit 0.4) (Fin (2305804578689027 / 2305843009213693952))
     = Fin (3611886751031901 / 9007199254740992)"
  by (simp add: float_eval)

lemma time_after_1: "time_after 1 = Fin (5764607523034235 / 1152921504606846976)"
  unfolding time_after_Fin time_real_1 ..

section \<open>The range of the hover\<close>

lemma round_even_ge_half:
  assumes "of_int k - 1 / 2 \<le> q" "even k"
  shows "k \<le> round_even q"
proof (cases "of_int k \<le> q")
  case True
  then show ?thesis by (rule round_even_ge)
next
  case False
  have f: "\<lfloor>q\<rfloor> = k - 1" using False assms(1) by (simp add: floor_eq_iff)
  have od: "odd (k - 1)" using assms(2) by simp
  show ?thesis unfolding round_even_def Let_def f using False assms(1) od by simp
qed

lemma rnd_0: "rnd 0 = 0"
  by (simp add: rnd_def round_even_def)

lemma rnd_abs_le_grid:
  assumes "\<bar>x\<bar> \<le> of_int k * 2 powi j" "k < 2 ^ 53" "- 1074 \<le> j"
  shows "\<bar>rnd x\<bar> \<le> of_int k * 2 powi j"
proof (cases "x = 0")
  case True
  then show ?thesis using assms(1) by (simp add: rnd_0)
next
  case False
  define i where "i = max (expo x) (- 1022) - 52"
  have u: "ulp x = 2 powi i" by (simp add: ulp_def i_def)
  have "(of_int k :: real) < of_int (2 ^ 53)" using assms(2) of_int_less_iff by blast
  then have "(of_int k :: real) * 2 powi j < 2 ^ 53 * 2 powi j"
    by (simp add: mult_strict_right_mono)
  also have "\<dots> = 2 powi (53 + j)" by (subst power_int_add) simp_all
  finally have "\<bar>x\<bar> < 2 powi (53 + j)" using assms(1) by linarith
  then have "expo x < 53 + j" using False by (rule expo_lt[rotated])
  then have ij: "0 \<le> j - i" using assms(3) by (simp add: i_def)
  have "(2::real) powi j = 2 powi ((j - i) + i)" by simp
  also have "\<dots> = 2 powi (j - i) * 2 powi i" by (rule power_int_add) simp
  also have "(2::real) powi (j - i) = of_int (2 ^ nat (j - i))" using ij by (simp add: power_int_def)
  finally have g: "of_int k * 2 powi j = of_int (k * 2 ^ nat (j - i)) * ulp x"
    by (simp add: u)
  define K where "K = k * 2 ^ nat (j - i)"
  have b: "- (of_int K * ulp x) \<le> x" "x \<le> of_int K * ulp x"
    using assms(1) unfolding g K_def by linarith+
  have "of_int (- K) \<le> x / ulp x" using b(1) ulp_pos[of x] by (simp add: field_simps)
  then have lo: "- K \<le> round_even (x / ulp x)" by (rule round_even_ge)
  have "x / ulp x \<le> of_int K" using b(2) ulp_pos[of x] by (simp add: field_simps)
  then have hi: "round_even (x / ulp x) \<le> K" by (rule round_even_le)
  have "\<bar>round_even (x / ulp x)\<bar> \<le> K" using lo hi by linarith
  then have "\<bar>of_int (round_even (x / ulp x)) :: real\<bar> \<le> of_int K"
    by (metis of_int_abs of_int_le_iff)
  then have "\<bar>rnd x\<bar> \<le> of_int K * ulp x"
    unfolding rnd_def using ulp_pos[of x] by (simp add: abs_mult mult_right_mono)
  then show ?thesis unfolding g K_def .
qed

lemma rnd_half:
  assumes "1 / 2 \<le> x" "x < 1 / 2 + 1 / 2 ^ 54"
  shows "rnd x = 1 / 2"
proof -
  have ax: "\<bar>x\<bar> = x" using assms by simp
  have "expo x = - 1" using assms ax by (intro expo_unique) (simp_all add: power_int_minus_divide)
  then have u: "ulp x = 1 / 2 ^ 53" by (simp add: ulp_def power_int_minus_divide)
  have "\<bar>x * 2 ^ 53 - of_int (2 ^ 52)\<bar> < 1 / 2" using assms by simp
  then have "round_even (x * 2 ^ 53) = 2 ^ 52" by (rule round_even_near)
  then show ?thesis by (simp add: rnd_def u)
qed

lemma rnd_above_03:
  assumes "10808639105689191 / 36028797018963968 \<le> x" "x < 1 / 2"
  shows "5404319552844596 / 18014398509481984 \<le> rnd x"
proof -
  have ax: "\<bar>x\<bar> = x" using assms by simp
  have "expo x = - 2" using assms ax by (intro expo_unique) (simp_all add: power_int_minus_divide)
  then have u: "ulp x = 1 / 2 ^ 54" by (simp add: ulp_def power_int_minus_divide)
  have "of_int 5404319552844596 - 1 / 2 \<le> x * 2 ^ 54" using assms by simp
  then have "5404319552844596 \<le> round_even (x * 2 ^ 54)" by (rule round_even_ge_half) simp
  then have "(of_int 5404319552844596 :: real) \<le> of_int (round_even (x * 2 ^ 54))"
    using of_int_le_iff by blast
  then show ?thesis by (simp add: rnd_def u)
qed

lemma lit_01: "lit 0.1 = Fin (3602879701896397 / 36028797018963968)"
  by (simp add: float_eval)

lemma lit_04: "lit 0.4 = Fin (3602879701896397 / 9007199254740992)"
  by (simp add: float_eval)

lemma hover_range:
  assumes "- 1 \<le> s" "s \<le> 1"
  shows "num_between (num_add (lit 0.4) (num_mul (Fin s) (lit 0.1))) (3 / 10) (1 / 2)"
proof -
  define c :: real where "c = 3602879701896397 / 36028797018963968"
  define w where "w = rnd (s * c)"
  have c0: "0 < c" by (simp add: c_def)
  have cg: "c = of_int 3602879701896397 * 2 powi (- 55)"
    by (simp add: c_def power_int_minus_divide)
  have "\<bar>s * c\<bar> = \<bar>s\<bar> * c" using c0 by (simp add: abs_mult)
  also have "\<dots> \<le> 1 * c" using assms c0 by (intro mult_right_mono) simp_all
  finally have sc: "\<bar>s * c\<bar> \<le> c" by simp
  have "\<bar>s * c\<bar> \<le> of_int 3602879701896397 * 2 powi (- 55)"
    by (rule ord_le_eq_trans[OF sc cg])
  then have "\<bar>w\<bar> \<le> of_int 3602879701896397 * 2 powi (- 55)"
    unfolding w_def by (rule rnd_abs_le_grid) simp_all
  then have wb: "- c \<le> w" "w \<le> c" unfolding cg by linarith+
  have m: "num_mul (Fin s) (lit 0.1) = Fin w"
    unfolding lit_01 num_mul.simps c_def[symmetric] w_def[symmetric]
    using wb c_def by (intro rd_Fin[of "s * c", unfolded w_def[symmetric]]) simp_all
  define z where "z = 3602879701896397 / 9007199254740992 + w"
  have zb: "10808639105689191 / 36028797018963968 \<le> z" "z \<le> 1 / 2 + 1 / 2 ^ 55"
    using wb by (simp_all add: z_def c_def)
  have r: "5404319552844596 / 18014398509481984 \<le> rnd z \<and> rnd z \<le> 1 / 2"
  proof (cases "z < 1 / 2")
    case True
    have "rnd z \<le> 2 powi (- 1)" using True zb by (intro rnd_le_pow2) (simp_all add: power_int_minus_divide)
    then show ?thesis using rnd_above_03[OF zb(1) True] by (simp add: power_int_minus_divide)
  next
    case False
    have "rnd z = 1 / 2" using False zb by (intro rnd_half) simp_all
    then show ?thesis by simp
  qed
  have a: "num_add (lit 0.4) (Fin w) = Fin (rnd z)"
    unfolding lit_04 num_add.simps z_def[symmetric]
    using r by (intro rd_Fin) simp_all
  show ?thesis unfolding m a using r by simp
qed

section \<open>The resize handler\<close>

text \<open>
  C4. The resize handler is idempotent: run twice with the same width and height it leaves
  exactly the state that one run leaves, so the camera's aspect ratio, its projection
  matrix and the renderer's output size are the same after the second run as after the
  first. This holds for every pair of Numbers, a zero height included.
\<close>

theorem resize_idempotent:
  "resize upm w h (resize upm w h s) = resize upm w h s"
  by (simp add: resize_def updateProjectionMatrix_def setSize_def Let_def)

text \<open>
  C5. After the resize handler has run with window dimensions \<open>w\<close> and \<open>h\<close>, the camera's
  aspect ratio is the Number \<^verbatim>\<open>w / h\<close>. For 1024 by 768 that Number is
  \<open>6004799503160661 / 2^52\<close>, the binary64 value nearest to 1024/768, about 1.333.
\<close>

theorem resize_aspect:
  "aspect (camera (resize upm w h s)) = num_div w h \<and>
   aspect (camera (resize upm (Fin 1024) (Fin 768) s)) = num_div (Fin 1024) (Fin 768) \<and>
   num_div (Fin 1024) (Fin 768) = Fin (6004799503160661 / 4503599627370496) \<and>
   \<bar>6004799503160661 / 4503599627370496 - 1024 / 768\<bar> \<le> (1 / 2 ^ 53 :: real)"
  by (simp add: resize_def updateProjectionMatrix_def Let_def
      rd_def rnd_def ulp_def expo_def round_even_def bitlen_def compute_floorlog)

text \<open>
  C10. The resize handler writes the camera's aspect ratio, the projection matrix computed
  from it, and the renderer's width and height. The camera's position, field of view, near
  and far planes, the orbit controls with their target, the renderer's other settings, the
  scene, its objects and the time accumulator stay as they were.
\<close>

theorem resize_frame:
  "camera_position (camera (resize upm w h s)) = camera_position (camera s) \<and>
   fov (camera (resize upm w h s)) = fov (camera s) \<and>
   near (camera (resize upm w h s)) = near (camera s) \<and>
   far (camera (resize upm w h s)) = far (camera s) \<and>
   target (controls (resize upm w h s)) = target (controls s) \<and>
   controls (resize upm w h s) = controls s \<and>
   scene (resize upm w h s) = scene s \<and>
   objects (resize upm w h s) = objects s \<and>
   time (resize upm w h s) = time s \<and>
   camera (resize upm w h s) =
     (camera s)\<lparr>aspect := num_div w h,
                projectionMatrix := upm (fov (camera s)) (num_div w h)
                                      (near (camera s)) (far (camera s))\<rparr> \<and>
   renderer (resize upm w h s) = (renderer s)\<lparr>width := w, height := h\<rparr>"
  by (simp add: resize_def updateProjectionMatrix_def setSize_def Let_def)

section \<open>The scene after startup\<close>

text \<open>
  C6. After startup the scene's children hold exactly one ground plane (the floor), one box
  (the cube), one cylinder (the pedestal), one sphere (the accent sphere) and four lights,
  so at least three. Each sits where the source puts it: the floor at the origin, the cube
  at \<open>(0, 1.1, 0)\<close>, the pedestal at \<open>(0, 0.15, 0)\<close>, the sphere at \<open>(-5, 0.4, -4)\<close>, the
  directional light at \<open>(8, 12, 6)\<close>, the point lights at \<open>(-4, 3, -6)\<close> and \<open>(6, 2, 8)\<close>,
  and the ambient light, whose position the source never sets, at the origin.
\<close>

theorem startup_scene_contents:
  "filter (\<lambda>i. is_ground (objects (startup upm place win) i)) (children (scene (startup upm place win)))
     = [floorMesh] \<and>
   filter (\<lambda>i. is_box (kind (objects (startup upm place win) i)))
       (children (scene (startup upm place win))) = [cube] \<and>
   filter (\<lambda>i. is_cylinder (kind (objects (startup upm place win) i)))
       (children (scene (startup upm place win))) = [pedestal] \<and>
   filter (\<lambda>i. is_sphere (kind (objects (startup upm place win) i)))
       (children (scene (startup upm place win))) = [accentSphere] \<and>
   filter (\<lambda>i. is_light (kind (objects (startup upm place win) i)))
       (children (scene (startup upm place win)))
     = [ambientLight, mainLight, accentLight, rimLight] \<and>
   3 \<le> length (filter (\<lambda>i. is_light (kind (objects (startup upm place win) i)))
                 (children (scene (startup upm place win)))) \<and>
   position (objects (startup upm place win) floorMesh) = Vector3 (Fin 0) (Fin 0) (Fin 0) \<and>
   position (objects (startup upm place win) cube) = Vector3 (lit 0) (lit 1.1) (lit 0) \<and>
   position (objects (startup upm place win) pedestal) = Vector3 (Fin 0) (lit 0.15) (Fin 0) \<and>
   position (objects (startup upm place win) accentSphere)
     = Vector3 (num_neg (lit 5)) (lit 0.4) (num_neg (lit 4)) \<and>
   position (objects (startup upm place win) ambientLight) = Vector3 (Fin 0) (Fin 0) (Fin 0) \<and>
   position (objects (startup upm place win) mainLight) = Vector3 (lit 8) (lit 12) (lit 6) \<and>
   position (objects (startup upm place win) accentLight)
     = Vector3 (num_neg (lit 4)) (lit 3) (num_neg (lit 6)) \<and>
   position (objects (startup upm place win) rimLight) = Vector3 (lit 6) (lit 2) (lit 8)"
  by (simp add: startup_def scene_init_def object_defs is_ground_def neg_half_pi half_pi)

text \<open>
  C9. Startup construction depends on no runtime input: whatever the window's dimensions
  and pixel ratio and whatever the library computes for the projection matrix and the
  camera's placement, two runs build the same scene and the same objects. The scene is
  this one: background and fog of colour \<open>0x1a1d28\<close>, fog from 10 to 35, and twelve children
  in the order of the source, which are four lights (ambient, directional, two point
  lights), the floor, three walls and the ceiling, the cube, the pedestal and the accent
  sphere, each with the geometry, colour, material parameters, intensity, position,
  rotation and shadow settings that lines 159 to 316 give it.
\<close>

theorem startup_deterministic:
  "scene (startup upm place win) = scene (startup upm' place' win') \<and>
   objects (startup upm place win) = objects (startup upm' place' win') \<and>
   scene (startup upm place win) =
     \<lparr>background = 0x1a1d28, fog = (0x1a1d28, lit 10, lit 35),
      children = [ambientLight, mainLight, accentLight, rimLight, floorMesh, backWall,
                  leftWall, rightWall, ceilingMesh, cube, pedestal, accentSphere]\<rparr> \<and>
   objects (startup upm place win) ambientLight =
     \<lparr>kind = AmbientLight 0xb8c5d6 (lit 0.4),
      position = Vector3 (Fin 0) (Fin 0) (Fin 0),
      rotation = Euler (Fin 0) (Fin 0) (Fin 0),
      castShadow = False, receiveShadow = False, shadow = default_shadow\<rparr> \<and>
   objects (startup upm place win) mainLight =
     \<lparr>kind = DirectionalLight 0xffffff (lit 2.5),
      position = Vector3 (lit 8) (lit 12) (lit 6),
      rotation = Euler (Fin 0) (Fin 0) (Fin 0),
      castShadow = True, receiveShadow = False, shadow = \<lparr>mapSize_width = Some (lit 2048), mapSize_height = Some (lit 2048),
                camera_near = Some (lit 0.5), camera_far = Some (lit 30),
                camera_left = Some (num_neg (lit 12)), camera_right = Some (lit 12),
                camera_top = Some (lit 12), camera_bottom = Some (num_neg (lit 12)),
                bias = Some (num_neg (lit 0.0001))\<rparr>\<rparr> \<and>
   objects (startup upm place win) accentLight =
     \<lparr>kind = PointLight 0xffa366 (lit 1.5) (lit 15),
      position = Vector3 (num_neg (lit 4)) (lit 3) (num_neg (lit 6)),
      rotation = Euler (Fin 0) (Fin 0) (Fin 0),
      castShadow = True, receiveShadow = False, shadow = \<lparr>mapSize_width = Some (lit 512), mapSize_height = Some (lit 512),
                camera_near = None, camera_far = None, camera_left = None,
                camera_right = None, camera_top = None, camera_bottom = None,
                bias = None\<rparr>\<rparr> \<and>
   objects (startup upm place win) rimLight =
     \<lparr>kind = PointLight 0x6694cc (lit 1) (lit 18),
      position = Vector3 (lit 6) (lit 2) (lit 8),
      rotation = Euler (Fin 0) (Fin 0) (Fin 0),
      castShadow = False, receiveShadow = False, shadow = default_shadow\<rparr> \<and>
   objects (startup upm place win) floorMesh =
     \<lparr>kind = Mesh (PlaneGeometry (lit 24) (lit 24))
             \<lparr>color = 0x2d3142, roughness = lit 0.9, metalness = lit 0.1,
              envMapIntensity = None, emissive = None, emissiveIntensity = None\<rparr>,
      position = Vector3 (Fin 0) (Fin 0) (Fin 0),
      rotation = Euler (num_div (num_neg Math_PI) (lit 2)) (Fin 0) (Fin 0),
      castShadow = False, receiveShadow = True, shadow = default_shadow\<rparr> \<and>
   objects (startup upm place win) backWall =
     \<lparr>kind = Mesh (PlaneGeometry (lit 24) (lit 12))
             \<lparr>color = 0x383d52, roughness = lit 0.85, metalness = lit 0.05,
              envMapIntensity = None, emissive = None, emissiveIntensity = None\<rparr>,
      position = Vector3 (lit 0) (lit 6) (num_neg (lit 12)),
      rotation = Euler (Fin 0) (Fin 0) (Fin 0),
      castShadow = False, receiveShadow = True, shadow = default_shadow\<rparr> \<and>
   objects (startup upm place win) leftWall =
     \<lparr>kind = Mesh (PlaneGeometry (lit 24) (lit 12))
             \<lparr>color = 0x343849, roughness = lit 0.85, metalness = lit 0.05,
              envMapIntensity = None, emissive = None, emissiveIntensity = None\<rparr>,
      position = Vector3 (num_neg (lit 12)) (lit 6) (lit 0),
      rotation = Euler (Fin 0) (num_div Math_PI (lit 2)) (Fin 0),
      castShadow = False, receiveShadow = True, shadow = default_shadow\<rparr> \<and>
   objects (startup upm place win) rightWall =
     \<lparr>kind = Mesh (PlaneGeometry (lit 24) (lit 12))
             \<lparr>color = 0x3a3f56, roughness = lit 0.85, metalness = lit 0.05,
              envMapIntensity = None, emissive = None, emissiveIntensity = None\<rparr>,
      position = Vector3 (lit 12) (lit 6) (lit 0),
      rotation = Euler (Fin 0) (num_div (num_neg Math_PI) (lit 2)) (Fin 0),
      castShadow = False, receiveShadow = True, shadow = default_shadow\<rparr> \<and>
   objects (startup upm place win) ceilingMesh =
     \<lparr>kind = Mesh (PlaneGeometry (lit 24) (lit 24))
             \<lparr>color = 0x1f2332, roughness = lit 0.9, metalness = lit 0.05,
              envMapIntensity = None, emissive = None, emissiveIntensity = None\<rparr>,
      position = Vector3 (Fin 0) (lit 12) (Fin 0),
      rotation = Euler (num_div Math_PI (lit 2)) (Fin 0) (Fin 0),
      castShadow = False, receiveShadow = True, shadow = default_shadow\<rparr> \<and>
   objects (startup upm place win) cube =
     \<lparr>kind = Mesh (BoxGeometry (lit 2.2) (lit 2.2) (lit 2.2))
             \<lparr>color = 0x5d7fa3, roughness = lit 0.3, metalness = lit 0.6,
              envMapIntensity = Some (lit 0.8), emissive = None, emissiveIntensity = None\<rparr>,
      position = Vector3 (lit 0) (lit 1.1) (lit 0),
      rotation = Euler (Fin 0) (Fin 0) (Fin 0),
      castShadow = True, receiveShadow = True, shadow = default_shadow\<rparr> \<and>
   objects (startup upm place win) pedestal =
     \<lparr>kind = Mesh (CylinderGeometry (lit 1.8) (lit 2) (lit 0.3) (lit 32))
             \<lparr>color = 0x4a5166, roughness = lit 0.7, metalness = lit 0.3,
              envMapIntensity = None, emissive = None, emissiveIntensity = None\<rparr>,
      position = Vector3 (Fin 0) (lit 0.15) (Fin 0),
      rotation = Euler (Fin 0) (Fin 0) (Fin 0),
      castShadow = True, receiveShadow = True, shadow = default_shadow\<rparr> \<and>
   objects (startup upm place win) accentSphere =
     \<lparr>kind = Mesh (SphereGeometry (lit 0.4) (lit 32) (lit 32))
             \<lparr>color = 0xf4a261, roughness = lit 0.2, metalness = lit 0.8,
              envMapIntensity = None, emissive = Some 0xf4a261, emissiveIntensity = Some (lit 0.1)\<rparr>,
      position = Vector3 (num_neg (lit 5)) (lit 0.4) (num_neg (lit 4)),
      rotation = Euler (Fin 0) (Fin 0) (Fin 0),
      castShadow = True, receiveShadow = False, shadow = default_shadow\<rparr>"
  by (simp add: startup_def scene_init_def object_defs default_shadow_def)

section \<open>The time accumulator\<close>

text \<open>
  C1, as stated, fails: after six frames the accumulator holds
  \<open>8646911284551353 / 2^58\<close>, one unit in the last place above the Number \<^verbatim>\<open>0.005 * 6\<close>,
  which is \<open>1080863910568919 / 2^55\<close>.
\<close>

theorem time_product_counterexample:
  "time (run correct_sin no_projection (replicate 6 (Frame no_input))
           (startup no_projection sample_placement sample_window))
     = Fin (8646911284551353 / 288230376151711744) \<and>
   num_mul (lit 0.005) (Fin 6) = Fin (1080863910568919 / 36028797018963968) \<and>
   time (run correct_sin no_projection (replicate 6 (Frame no_input))
           (startup no_projection sample_placement sample_window))
     \<noteq> num_mul (lit 0.005) (Fin 6)"
  unfolding run_startup_time frame_count_replicate time_after_Fin time_real_6 product_6
  by simp

text \<open>
  C1, amended. After a trace with \<open>n\<close> frame events (resize events may come in between)
  the accumulator is the sum of \<open>n\<close> rounded additions of \<^verbatim>\<open>0.005\<close> to \<^verbatim>\<open>0\<close>, nothing
  resets it. For \<open>n \<le> 2^53\<close> it is finite and within \<open>n\<^sup>2 / 2^60\<close> of the real number
  \<open>0.005 n\<close>, and for \<open>n \<le> 5\<close> it is the Number \<^verbatim>\<open>0.005 * n\<close> exactly.
\<close>

theorem time_after_frames:
  "time (run msin upm evs (startup upm place win)) = time_after (frame_count evs) \<and>
   (frame_count evs \<le> 2 ^ 53 \<longrightarrow>
      num_near (time_after (frame_count evs)) (real (frame_count evs) * 0.005)
        ((real (frame_count evs))\<^sup>2 / 2 ^ 60)) \<and>
   (frame_count evs \<le> 5 \<longrightarrow>
      time_after (frame_count evs) = num_mul (lit 0.005) (Fin (real (frame_count evs))))"
  using run_startup_time time_after_near time_after_small by blast

text \<open>The amended C1 on a trace of two frames with a resize in between.\<close>

theorem time_after_frames_witness:
  "frame_count [Frame no_input, Resize (Fin 800) (Fin 600), Frame no_input] \<le> 5 \<and>
   frame_count [Frame no_input, Resize (Fin 800) (Fin 600), Frame no_input] \<le> 2 ^ 53 \<and>
   time (run correct_sin no_projection [Frame no_input, Resize (Fin 800) (Fin 600), Frame no_input]
           (startup no_projection sample_placement sample_window)) = time_after 2 \<and>
   num_near (time_after 2) (2 * 0.005) (2\<^sup>2 / 2 ^ 60) \<and>
   time_after 2 = num_mul (lit 0.005) (Fin 2)"
proof -
  have fc: "frame_count [Frame no_input, Resize (Fin 800) (Fin 600), Frame no_input] = 2"
    by (simp add: frame_count_def)
  note th = time_after_frames[of correct_sin no_projection
      "[Frame no_input, Resize (Fin 800) (Fin 600), Frame no_input]" sample_placement
      sample_window, unfolded fc]
  have a: "time (run correct_sin no_projection
                  [Frame no_input, Resize (Fin 800) (Fin 600), Frame no_input]
                  (startup no_projection sample_placement sample_window)) = time_after 2"
    using th[THEN conjunct1] .
  have b: "num_near (time_after 2) (2 * 0.005) (2\<^sup>2 / 2 ^ 60)"
    using th[THEN conjunct2, THEN conjunct1] by simp
  have c: "time_after 2 = num_mul (lit 0.005) (Fin 2)"
    using th[THEN conjunct2, THEN conjunct2] by simp
  show ?thesis unfolding fc using a b c by simp
qed

lemma time_real_early:
  assumes "n \<le> 2 ^ 45"
  shows "time_real n < 2 ^ 46"
proof -
  define m where "m = real n"
  have "real n \<le> real (2 ^ 45)" using assms of_nat_le_iff by blast
  then have m: "0 \<le> m" "m \<le> 2 ^ 45" by (simp_all add: m_def)
  then have m53: "m \<le> 2 ^ 53" by simp
  have "m\<^sup>2 \<le> (2 ^ 45)\<^sup>2" using m by (intro power_mono) simp_all
  then have sq: "m\<^sup>2 / 2 ^ 60 \<le> 2 ^ 30" by simp
  have "\<bar>time_real n - m * (5 / 1000)\<bar> \<le> m\<^sup>2 / 2 ^ 60"
    using time_real_near[of n] m53 by (simp add: m_def)
  then have "time_real n \<le> m * (5 / 1000) + 2 ^ 30" using sq by linarith
  also have "\<dots> \<le> 2 ^ 45 * (5 / 1000) + 2 ^ 30" using m by simp
  also have "\<dots> < 2 ^ 46" by simp
  finally show ?thesis .
qed

lemma time_real_step:
  "time_real n \<le> time_real (Suc n) \<and>
   (time_real n < 2 ^ 46 \<longrightarrow> time_real n < time_real (Suc n))"
proof -
  have r: "0 \<le> time_real n" "time_real n \<le> 2 ^ 46" using time_real_range[of n] by simp_all
  have a: "time_real n \<le> time_real (Suc n)" using step_ge[OF r] by simp
  have b: "time_real n < time_real (Suc n)" if lt: "time_real n < 2 ^ 46"
  proof (cases "time_real n + step_real < 2 ^ 46")
    case True
    then show ?thesis using step_gt[OF r(1)] by simp
  next
    case False
    have c: "step_real < 1 / 128" by (simp add: step_real_def)
    have "rnd (time_real n + step_real) = 2 ^ 46" using False r c by (intro step_fix) simp_all
    then show ?thesis using lt by simp
  qed
  show ?thesis using a b by blast
qed

lemma animate_run_time:
  "time (animate msin upd (run msin upm evs (startup upm place win))) = Fin (time_real (Suc (frame_count evs)))"
proof -
  have "time (animate msin upd (run msin upm evs (startup upm place win)))
          = time_after (Suc (frame_count evs))"
    by (simp only: animate_time run_startup_time time_after.simps)
  then show ?thesis by (simp only: time_after_Fin)
qed

text \<open>
  C7, as stated, fails on both counts. The accumulator never exceeds \<open>2^46\<close>: from there on
  \<^verbatim>\<open>0.005\<close> is less than half the spacing of the Numbers and \<^verbatim>\<open>time + 0.005\<close> rounds back
  to \<^verbatim>\<open>time\<close>. Being bounded and a multiple of \<open>2^-60\<close>, it cannot rise at every frame.
\<close>

theorem time_growth_counterexample:
  "\<not> (\<forall>n. num_less
          (time (run correct_sin no_projection (replicate n (Frame no_input))
                   (startup no_projection sample_placement sample_window)))
          (time (run correct_sin no_projection (replicate (Suc n) (Frame no_input))
                   (startup no_projection sample_placement sample_window)))) \<and>
   \<not> (\<forall>b. \<exists>n. num_less (Fin b)
          (time (run correct_sin no_projection (replicate n (Frame no_input))
                   (startup no_projection sample_placement sample_window))))"
proof -
  have t: "time (run correct_sin no_projection (replicate n (Frame no_input))
                   (startup no_projection sample_placement sample_window)) = Fin (time_real n)" for n
    by (simp only: run_startup_time frame_count_replicate time_after_Fin)
  have a: "\<not> (\<forall>n. num_less (Fin (time_real n)) (Fin (time_real (Suc n))))"
    using time_real_not_strict by simp
  have "\<not> (\<exists>n. num_less (Fin (2 ^ 46)) (Fin (time_real n)))"
    using time_real_range by (simp add: not_less)
  then have b: "\<not> (\<forall>b. \<exists>n. num_less (Fin b) (Fin (time_real n)))" by blast
  show ?thesis unfolding t using a b by blast
qed

text \<open>
  C7, amended. A frame never lowers the accumulator and nothing resets or wraps it. A frame
  raises it strictly whenever it is below \<open>2^46 = 70368744177664\<close>, which covers at least
  the first \<open>2^45\<close> frames of a session; it never exceeds \<open>2^46\<close>.
\<close>

theorem time_monotone:
  "num_le (time (run msin upm evs (startup upm place win)))
          (time (animate msin upd (run msin upm evs (startup upm place win)))) \<and>
   (num_less (time (run msin upm evs (startup upm place win))) (Fin (2 ^ 46)) \<longrightarrow>
      num_less (time (run msin upm evs (startup upm place win)))
               (time (animate msin upd (run msin upm evs (startup upm place win))))) \<and>
   (frame_count evs \<le> 2 ^ 45 \<longrightarrow>
      num_less (time (run msin upm evs (startup upm place win)))
               (time (animate msin upd (run msin upm evs (startup upm place win))))) \<and>
   num_le (time (run msin upm evs (startup upm place win))) (Fin (2 ^ 46))"
  unfolding animate_run_time run_startup_time time_after_Fin
  using time_real_step[of "frame_count evs"] time_real_range[of "frame_count evs"]
    time_real_early[of "frame_count evs"]
  by auto

text \<open>The hypotheses of the amended C7 hold at startup, before the first frame.\<close>

theorem time_monotone_witness:
  "num_less (time (run correct_sin no_projection [] (startup no_projection sample_placement sample_window)))
            (Fin (2 ^ 46)) \<and>
   frame_count [] \<le> 2 ^ 45 \<and>
   num_less (time (run correct_sin no_projection [] (startup no_projection sample_placement sample_window)))
            (time (animate correct_sin no_input
                     (run correct_sin no_projection [] (startup no_projection sample_placement sample_window)))) \<and>
   num_le (time (run correct_sin no_projection [] (startup no_projection sample_placement sample_window)))
          (Fin (2 ^ 46))"
proof -
  have z: "time (run correct_sin no_projection [] (startup no_projection sample_placement sample_window)) = Fin 0"
    by (simp add: run_Nil startup_def lit_0)
  have h: "num_less (time (run correct_sin no_projection [] (startup no_projection sample_placement sample_window)))
            (Fin (2 ^ 46))"
    unfolding z by simp
  have f: "frame_count [] \<le> 2 ^ 45" by (simp add: frame_count_def)
  note th = time_monotone[of correct_sin no_projection "[]" sample_placement sample_window no_input]
  show ?thesis using h f th by blast
qed

section \<open>The cube and the accent sphere\<close>

text \<open>
  C2, as stated, fails: after six frames \<^verbatim>\<open>cube.rotation.y\<close> is
  \<open>1297036692682703 / 2^57\<close>, computed from the accumulated time, while the Number
  \<^verbatim>\<open>(0.005 * 6) * 0.3\<close> is \<open>5188146770730811 / 2^59\<close>.
\<close>

theorem cube_rotation_counterexample:
  "ey (rotation (objects (run correct_sin no_projection (replicate 6 (Frame no_input))
                            (startup no_projection sample_placement sample_window)) cube))
     = Fin (1297036692682703 / 144115188075855872) \<and>
   num_mul (num_mul (lit 0.005) (Fin 6)) (lit 0.3)
     = Fin (5188146770730811 / 576460752303423488) \<and>
   ey (rotation (objects (run correct_sin no_projection (replicate 6 (Frame no_input))
                            (startup no_projection sample_placement sample_window)) cube))
     \<noteq> num_mul (num_mul (lit 0.005) (Fin 6)) (lit 0.3)"
  unfolding run_cube frame_count_replicate time_after_Fin time_real_6 product_6
    rotation_6_sum rotation_6_product
  by simp

lemma zero_product: "num_mul (num_mul (lit 0.005) (Fin 0)) (lit 0.3) = Fin 0"
  by (simp add: float_eval)

text \<open>
  C2, amended. Before the first frame the cube's rotation is \<open>(0, 0, 0)\<close>. After \<open>n \<ge> 1\<close>
  frames its rotation about the y axis is the Number \<^verbatim>\<open>time * 0.3\<close> and its tilt is
  \<^verbatim>\<open>Math.sin(time * 0.5) * 0.05\<close>, where \<^verbatim>\<open>time\<close> is the accumulator after \<open>n\<close> rounded
  additions of \<^verbatim>\<open>0.005\<close>; the rotation about z stays \<open>0\<close>. For \<open>n \<le> 5\<close> the rotation about
  y is the Number \<^verbatim>\<open>(0.005 * n) * 0.3\<close>.
\<close>

theorem cube_rotation_after_frames:
  "rotation (objects (run msin upm evs (startup upm place win)) cube) =
     (if frame_count evs = 0 then Euler (Fin 0) (Fin 0) (Fin 0)
      else Euler (num_mul (msin (num_mul (time_after (frame_count evs)) (lit 0.5))) (lit 0.05))
                 (num_mul (time_after (frame_count evs)) (lit 0.3)) (Fin 0)) \<and>
   (frame_count evs \<le> 5 \<longrightarrow>
      ey (rotation (objects (run msin upm evs (startup upm place win)) cube)) =
        num_mul (num_mul (lit 0.005) (Fin (real (frame_count evs)))) (lit 0.3))"
proof (cases "frame_count evs = 0")
  case True
  then show ?thesis unfolding run_cube using zero_product by (simp add: object_defs)
next
  case False
  then show ?thesis unfolding run_cube using time_after_small[of "frame_count evs"] by simp
qed

text \<open>The amended C2 at a trace of two frames.\<close>

theorem cube_rotation_after_frames_witness:
  "frame_count [Frame no_input, Frame no_input] \<le> 5 \<and>
   rotation (objects (run correct_sin no_projection [Frame no_input, Frame no_input]
                        (startup no_projection sample_placement sample_window)) cube) =
     Euler (num_mul (correct_sin (num_mul (time_after 2) (lit 0.5))) (lit 0.05))
           (num_mul (time_after 2) (lit 0.3)) (Fin 0) \<and>
   ey (rotation (objects (run correct_sin no_projection [Frame no_input, Frame no_input]
                            (startup no_projection sample_placement sample_window)) cube)) =
     num_mul (num_mul (lit 0.005) (Fin 2)) (lit 0.3)"
proof -
  have fc: "frame_count [Frame no_input, Frame no_input] = 2"
    by (simp add: frame_count_def)
  note th = cube_rotation_after_frames[of correct_sin no_projection
      "[Frame no_input, Frame no_input]" sample_placement sample_window, unfolded fc]
  have a: "rotation (objects (run correct_sin no_projection [Frame no_input, Frame no_input]
                        (startup no_projection sample_placement sample_window)) cube) =
     Euler (num_mul (correct_sin (num_mul (time_after 2) (lit 0.5))) (lit 0.05))
           (num_mul (time_after 2) (lit 0.3)) (Fin 0)"
    using th[THEN conjunct1] by simp
  have b: "ey (rotation (objects (run correct_sin no_projection [Frame no_input, Frame no_input]
                            (startup no_projection sample_placement sample_window)) cube)) =
     num_mul (num_mul (lit 0.005) (Fin 2)) (lit 0.3)"
    using th[THEN conjunct2] by simp
  show ?thesis unfolding fc using a b by simp
qed

text \<open>
  C3, as stated, fails. With a \<^verbatim>\<open>Math.sin\<close> that rounds the exact sine, the sphere's height
  after six frames is \<open>3656890477343691 / 2^53\<close> (0.4059964006479445), while the Number
  \<^verbatim>\<open>0.4 + Math.sin((0.005 * 6) * 2) * 0.1\<close> is \<open>7313780954687381 / 2^54\<close>
  (0.40599640064794446): the accumulated time is one unit in the last place above
  \<^verbatim>\<open>0.005 * 6\<close>, and the sum lands on the other side of a rounding boundary.
\<close>

theorem sphere_height_counterexample:
  "vy (position (objects (run correct_sin no_projection (replicate 6 (Frame no_input))
                            (startup no_projection sample_placement sample_window)) accentSphere))
     = Fin (3656890477343691 / 9007199254740992) \<and>
   num_add (lit 0.4)
     (num_mul (correct_sin (num_mul (num_mul (lit 0.005) (Fin 6)) (lit 2))) (lit 0.1))
     = Fin (7313780954687381 / 18014398509481984) \<and>
   vy (position (objects (run correct_sin no_projection (replicate 6 (Frame no_input))
                            (startup no_projection sample_placement sample_window)) accentSphere))
     \<noteq> num_add (lit 0.4)
         (num_mul (correct_sin (num_mul (num_mul (lit 0.005) (Fin 6)) (lit 2))) (lit 0.1))"
proof -
  have a: "vy (position (objects (run correct_sin no_projection (replicate 6 (Frame no_input))
                            (startup no_projection sample_placement sample_window)) accentSphere))
     = Fin (3656890477343691 / 9007199254740992)"
    unfolding run_sphere frame_count_replicate time_after_Fin time_real_6
    using height_sum_6 sin_sum_6 by simp
  have b: "num_add (lit 0.4)
     (num_mul (correct_sin (num_mul (num_mul (lit 0.005) (Fin 6)) (lit 2))) (lit 0.1))
     = Fin (7313780954687381 / 18014398509481984)"
    unfolding product_6 using height_product_6 sin_product_6 by simp
  show ?thesis unfolding a b by simp
qed

text \<open>
  C3, amended. Before the first frame the sphere is at \<open>(-5, 0.4, -4)\<close>. After \<open>n \<ge> 1\<close>
  frames its height is the Number \<^verbatim>\<open>0.4 + Math.sin(time * 2) * 0.1\<close>, where \<^verbatim>\<open>time\<close> is the
  accumulator after \<open>n\<close> rounded additions of \<^verbatim>\<open>0.005\<close>; x and z stay. Whenever
  \<^verbatim>\<open>Math.sin\<close> returns a value in \<open>[-1, 1]\<close> the height lies in \<open>[0.3, 0.5]\<close>. For
  \<open>1 \<le> n \<le> 5\<close> the height is the Number \<^verbatim>\<open>0.4 + Math.sin((0.005 * n) * 2) * 0.1\<close>.
\<close>

theorem sphere_height_after_frames:
  "position (objects (run msin upm evs (startup upm place win)) accentSphere) =
     (if frame_count evs = 0 then Vector3 (num_neg (lit 5)) (lit 0.4) (num_neg (lit 4))
      else Vector3 (num_neg (lit 5))
             (num_add (lit 0.4)
                (num_mul (msin (num_mul (time_after (frame_count evs)) (lit 2))) (lit 0.1)))
             (num_neg (lit 4))) \<and>
   (num_between (msin (num_mul (time_after (frame_count evs)) (lit 2))) (- 1) 1 \<longrightarrow>
      num_between (vy (position (objects (run msin upm evs (startup upm place win)) accentSphere)))
        (3 / 10) (1 / 2)) \<and>
   (1 \<le> frame_count evs \<and> frame_count evs \<le> 5 \<longrightarrow>
      vy (position (objects (run msin upm evs (startup upm place win)) accentSphere)) =
        num_add (lit 0.4)
          (num_mul (msin (num_mul (num_mul (lit 0.005) (Fin (real (frame_count evs)))) (lit 2)))
             (lit 0.1)))"
proof (cases "frame_count evs = 0")
  case True
  have "num_between (lit 0.4) (3 / 10) (1 / 2)" unfolding lit_04 by simp
  then show ?thesis unfolding run_sphere using True by (simp add: object_defs)
next
  case False
  have rng: "num_between (num_add (lit 0.4) (num_mul v (lit 0.1))) (3 / 10) (1 / 2)"
    if "num_between v (- 1) 1" for v
    using that hover_range by (cases v) simp_all
  have small: "time_after (frame_count evs) = num_mul (lit 0.005) (Fin (real (frame_count evs)))"
    if "frame_count evs \<le> 5"
    using that by (rule time_after_small)
  show ?thesis unfolding run_sphere using False rng small by simp
qed

text \<open>
  The amended C3 after one frame, with the correctly rounded sine: the height is
  \<open>3611886751031901 / 2^53\<close>, about 0.401.
\<close>

theorem sphere_height_after_frames_witness:
  "num_between (correct_sin (num_mul (time_after (frame_count [Frame no_input])) (lit 2))) (- 1) 1 \<and>
   1 \<le> frame_count [Frame no_input] \<and> frame_count [Frame no_input] \<le> 5 \<and>
   position (objects (run correct_sin no_projection [Frame no_input]
                        (startup no_projection sample_placement sample_window)) accentSphere)
     = Vector3 (Fin (- 5)) (Fin (3611886751031901 / 9007199254740992)) (Fin (- 4)) \<and>
   num_between (vy (position (objects (run correct_sin no_projection [Frame no_input]
                        (startup no_projection sample_placement sample_window)) accentSphere))) (3 / 10) (1 / 2) \<and>
   vy (position (objects (run correct_sin no_projection [Frame no_input]
                        (startup no_projection sample_placement sample_window)) accentSphere))
     = num_add (lit 0.4)
         (num_mul (correct_sin (num_mul (num_mul (lit 0.005) (Fin 1)) (lit 2))) (lit 0.1))"
proof -
  have fc: "frame_count [Frame no_input] = 1" by (simp add: frame_count_def)
  have s: "correct_sin (num_mul (time_after 1) (lit 2))
             = Fin (5764511446722567 / 576460752303423488)"
    unfolding time_after_1 using height_frame_1 sin_frame_1 by simp
  have h: "num_between (correct_sin (num_mul (time_after (frame_count [Frame no_input])) (lit 2)))
             (- 1) 1"
    unfolding fc s by simp
  have l5: "lit 5 = Fin 5" "lit 4 = Fin 4" by (simp_all add: float_eval)
  note th = sphere_height_after_frames[of correct_sin no_projection "[Frame no_input]"
      sample_placement sample_window]
  have p: "position (objects (run correct_sin no_projection [Frame no_input]
                        (startup no_projection sample_placement sample_window)) accentSphere)
     = Vector3 (Fin (- 5)) (Fin (3611886751031901 / 9007199254740992)) (Fin (- 4))"
    using th[THEN conjunct1] unfolding fc s l5 using height_frame_1 by simp
  have b: "num_between (vy (position (objects (run correct_sin no_projection [Frame no_input]
                        (startup no_projection sample_placement sample_window)) accentSphere))) (3 / 10) (1 / 2)"
    using th[THEN conjunct2, THEN conjunct1] h by blast
  have e: "vy (position (objects (run correct_sin no_projection [Frame no_input]
                        (startup no_projection sample_placement sample_window)) accentSphere))
     = num_add (lit 0.4)
         (num_mul (correct_sin (num_mul (num_mul (lit 0.005) (Fin 1)) (lit 2))) (lit 0.1))"
    using th[THEN conjunct2, THEN conjunct2] unfolding fc by simp
  have f1: "1 \<le> frame_count [Frame no_input]" unfolding fc by simp
  have f2: "frame_count [Frame no_input] \<le> 5" unfolding fc by simp
  show ?thesis using h f1 f2 p b e by blast
qed

section \<open>What a frame changes\<close>




end
